theory Spec2Isabelle
  imports Complex_Main
begin

section \<open>Floating-point values\<close>

text \<open>
  Python floats and numpy \<open>float64\<close> values are IEEE-754 doubles. A double is modelled
  as a finite real, one of the two infinities, or NaN. The special values and the
  exponent range follow IEEE-754: a result whose magnitude reaches the overflow
  threshold becomes an infinity, and every operation on special values is written out.
  In the arithmetic the rounding of the 53-bit significand, underflow and the sign of
  zero are not modelled: inside the finite range the operations are exact. The
  conversion of an integer to a double does round.
\<close>

datatype pyfloat = Fin real | PInf | NInf | NaN

definition dbl_max :: real where
  "dbl_max = 2 ^ 1024 - 2 ^ 971"

definition dbl_overflow :: real where
  "dbl_overflow = 2 ^ 1024 - 2 ^ 970"

definition to_double :: "real \<Rightarrow> pyfloat" where
  "to_double x =
     (if dbl_overflow \<le> x then PInf
      else if x \<le> - dbl_overflow then NInf
      else if dbl_max < x then Fin dbl_max
      else if x < - dbl_max then Fin (- dbl_max)
      else Fin x)"

fun fneg :: "pyfloat \<Rightarrow> pyfloat" where
  "fneg (Fin a) = Fin (- a)"
| "fneg PInf = NInf"
| "fneg NInf = PInf"
| "fneg NaN = NaN"

fun fadd :: "pyfloat \<Rightarrow> pyfloat \<Rightarrow> pyfloat" where
  "fadd (Fin a) (Fin b) = to_double (a + b)"
| "fadd NaN _ = NaN"
| "fadd _ NaN = NaN"
| "fadd PInf NInf = NaN"
| "fadd NInf PInf = NaN"
| "fadd PInf _ = PInf"
| "fadd NInf _ = NInf"
| "fadd _ PInf = PInf"
| "fadd _ NInf = NInf"

definition fsub :: "pyfloat \<Rightarrow> pyfloat \<Rightarrow> pyfloat" where
  "fsub a b = fadd a (fneg b)"

definition inf_of_sign :: "bool \<Rightarrow> pyfloat" where
  "inf_of_sign positive = (if positive then PInf else NInf)"

fun fmul :: "pyfloat \<Rightarrow> pyfloat \<Rightarrow> pyfloat" where
  "fmul (Fin a) (Fin b) = to_double (a * b)"
| "fmul NaN _ = NaN"
| "fmul _ NaN = NaN"
| "fmul PInf (Fin b) = (if b = 0 then NaN else inf_of_sign (0 < b))"
| "fmul NInf (Fin b) = (if b = 0 then NaN else inf_of_sign (b < 0))"
| "fmul (Fin a) PInf = (if a = 0 then NaN else inf_of_sign (0 < a))"
| "fmul (Fin a) NInf = (if a = 0 then NaN else inf_of_sign (a < 0))"
| "fmul PInf PInf = PInf"
| "fmul NInf NInf = PInf"
| "fmul PInf NInf = NInf"
| "fmul NInf PInf = NInf"

text \<open>
  Division as numpy's \<open>float64\<close> does it: a zero divisor gives an infinity or NaN and
  raises nothing.
\<close>

fun fdiv :: "pyfloat \<Rightarrow> pyfloat \<Rightarrow> pyfloat" where
  "fdiv (Fin a) (Fin b) =
     (if b = 0 then (if a = 0 then NaN else inf_of_sign (0 < a)) else to_double (a / b))"
| "fdiv NaN _ = NaN"
| "fdiv _ NaN = NaN"
| "fdiv (Fin a) PInf = Fin 0"
| "fdiv (Fin a) NInf = Fin 0"
| "fdiv PInf (Fin b) = inf_of_sign (0 \<le> b)"
| "fdiv NInf (Fin b) = inf_of_sign (b < 0)"
| "fdiv PInf PInf = NaN"
| "fdiv PInf NInf = NaN"
| "fdiv NInf PInf = NaN"
| "fdiv NInf NInf = NaN"

text \<open>Comparisons: every comparison with NaN is false.\<close>

fun flt :: "pyfloat \<Rightarrow> pyfloat \<Rightarrow> bool" where
  "flt (Fin a) (Fin b) = (a < b)"
| "flt NaN _ = False"
| "flt _ NaN = False"
| "flt PInf _ = False"
| "flt _ NInf = False"
| "flt _ PInf = True"
| "flt NInf _ = True"

definition fgt :: "pyfloat \<Rightarrow> pyfloat \<Rightarrow> bool" where
  "fgt a b = flt b a"

definition fge :: "pyfloat \<Rightarrow> pyfloat \<Rightarrow> bool" where
  "fge a b = (flt b a \<or> (a = b \<and> a \<noteq> NaN))"

definition fle :: "pyfloat \<Rightarrow> pyfloat \<Rightarrow> bool" where
  "fle a b = fge b a"

definition isnan :: "pyfloat \<Rightarrow> bool" where
  "isnan f = (f = NaN)"

definition isinf :: "pyfloat \<Rightarrow> bool" where
  "isinf f = (f = PInf \<or> f = NInf)"

datatype py_error = ValueError | TypeError | OverflowError

text \<open>\<open>math.sqrt\<close> raises ValueError on a negative argument.\<close>

fun py_sqrt :: "pyfloat \<Rightarrow> py_error + pyfloat" where
  "py_sqrt (Fin a) = (if a < 0 then Inl ValueError else Inr (Fin (sqrt a)))"
| "py_sqrt PInf = Inr PInf"
| "py_sqrt NInf = Inl ValueError"
| "py_sqrt NaN = Inr NaN"

text \<open>
  The builtin \<open>max(a, 0)\<close> keeps its first argument unless the second is greater, so
  a NaN first argument is returned as it is.
\<close>

definition py_max0 :: "pyfloat \<Rightarrow> pyfloat" where
  "py_max0 a = (if fgt (Fin 0) a then Fin 0 else a)"

section \<open>Python values and \<open>safe_float\<close>\<close>

text \<open>
  The values \<open>safe_float\<close> meets: \<open>None\<close>, native ints and floats, numpy scalars,
  numpy arrays and Python lists. An array of one or more dimensions is the list of what
  iterating over it yields: numpy scalars for a one-dimensional array, the sub-arrays
  along the first axis otherwise. So \<open>NdArray [NdArray [], NdArray []]\<close> is an array of
  shape \<open>(2, 0)\<close>. Zero-dimensional arrays are not modelled.
\<close>

datatype pyval =
    PyNone
  | PyInt int
  | PyFloat pyfloat
  | NpInteger int
  | NpFloating pyfloat
  | NdArray "pyval list"
  | PyList "pyval list"

text \<open>The elements of an array in order, and their number (\<open>val.size\<close>).\<close>

fun nd_flat :: "pyval \<Rightarrow> pyval list" where
  "nd_flat (NdArray xs) = concat (map nd_flat xs)"
| "nd_flat v = [v]"

definition nd_size :: "pyval \<Rightarrow> nat" where
  "nd_size v = length (nd_flat v)"

text \<open>
  \<open>.item()\<close> on a numpy scalar gives the native value; on an array of size one
  (the only arrays \<open>safe_float\<close> calls it on) it gives the native value of the single
  element.
\<close>

fun np_item :: "pyval \<Rightarrow> pyval" where
  "np_item (NpInteger i) = PyInt i"
| "np_item (NpFloating f) = PyFloat f"
| "np_item v = v"

definition nd_item :: "pyval \<Rightarrow> pyval" where
  "nd_item a = np_item (hd (nd_flat a))"

text \<open>
  \<open>float(val)\<close>: \<open>None\<close> stands for a raised exception (TypeError for \<open>None\<close> and
  lists, OverflowError for an int beyond the range of a double). In \<open>safe_float\<close> an
  array never reaches the conversion.
\<close>

text \<open>
  The conversion of an integer is the one rounding that is modelled: an integer of more
  than 53 bits is rounded to 53 significant bits, a tie going to the even significand.
  \<open>excess_bits\<close> counts the low bits that do not fit.
\<close>

fun excess_bits :: "nat \<Rightarrow> nat" where
  "excess_bits n = (if n < 2 ^ 53 then 0 else Suc (excess_bits (n div 2)))"

declare excess_bits.simps [simp del]

definition round_nat53 :: "nat \<Rightarrow> nat" where
  "round_nat53 n =
     (let sh = excess_bits n
      in if sh = 0 then n
         else
           let q = n div 2 ^ sh;
               r = n mod 2 ^ sh;
               half = 2 ^ (sh - 1);
               q' = (if half < r \<or> (r = half \<and> odd q) then q + 1 else q)
           in q' * 2 ^ sh)"

definition round_int53 :: "int \<Rightarrow> int" where
  "round_int53 i = sgn i * int (round_nat53 (nat \<bar>i\<bar>))"

definition int_to_float :: "int \<Rightarrow> pyfloat option" where
  "int_to_float i =
     (if dbl_overflow \<le> \<bar>real_of_int i\<bar> then None
      else Some (to_double (real_of_int (round_int53 i))))"

fun py_float :: "pyval \<Rightarrow> pyfloat option" where
  "py_float PyNone = None"
| "py_float (PyInt i) = int_to_float i"
| "py_float (PyFloat f) = Some f"
| "py_float (NpInteger i) = int_to_float i"
| "py_float (NpFloating f) = Some f"
| "py_float (NdArray xs) = None"
| "py_float (PyList xs) = None"

text \<open>Lines 23 to 29 of \<open>safe_float\<close>: the conversion inside \<open>try\<close>.\<close>

definition float_or_none :: "pyval \<Rightarrow> pyval" where
  "float_or_none v =
     (case py_float v of
        None \<Rightarrow> PyNone
      | Some f_val \<Rightarrow> if isnan f_val \<or> isinf f_val then PyNone else PyFloat f_val)"

fun safe_float :: "pyval \<Rightarrow> pyval" where
  "safe_float (NdArray xs) =
     (if nd_size (NdArray xs) = 1 then float_or_none (nd_item (NdArray xs))
      else PyList (map safe_float xs))"
| "safe_float (NpInteger i) = float_or_none (np_item (NpInteger i))"
| "safe_float (NpFloating f) = float_or_none (np_item (NpFloating f))"
| "safe_float v = float_or_none v"

section \<open>The dataset and the pandas operations used\<close>

text \<open>
  A dataset is a list of column labels and a list of rows, each row giving a cell for
  every label. A label may occur more than once in the list: then \<open>df[label]\<close> is not
  a column but a frame, and \<open>pd.to_numeric\<close> raises TypeError on it.
  \<open>pd.to_numeric(..., errors="coerce")\<close> turns a cell into a double:
  \<open>Number r\<close> is a cell that reads as the number \<open>r\<close> (a float, or text that parses
  as a number), \<open>Integer i\<close> is an integer cell, \<open>Missing\<close> is an empty cell or a NaN,
  and \<open>Text s\<close> is text that does not read as a number, which coercion turns into
  NaN. An integer cell beyond the range of a double is not coerced: the conversion
  raises OverflowError, for the whole column.
\<close>

datatype cell = Number real | Integer int | PosInfinity | NegInfinity | Missing | Text string

record dataframe =
  columns :: "string list"
  rows :: "(string \<Rightarrow> cell) list"

fun to_numeric :: "cell \<Rightarrow> py_error + pyfloat" where
  "to_numeric (Number r) = Inr (to_double r)"
| "to_numeric (Integer i) =
     (case int_to_float i of None \<Rightarrow> Inl OverflowError | Some f \<Rightarrow> Inr f)"
| "to_numeric PosInfinity = Inr PInf"
| "to_numeric NegInfinity = Inr NInf"
| "to_numeric Missing = Inr NaN"
| "to_numeric (Text s) = Inr NaN"

fun to_numeric_series :: "cell list \<Rightarrow> py_error + pyfloat list" where
  "to_numeric_series [] = Inr []"
| "to_numeric_series (c # cs) =
     (case to_numeric c of
        Inl e \<Rightarrow> Inl e
      | Inr f \<Rightarrow>
          (case to_numeric_series cs of Inl e \<Rightarrow> Inl e | Inr fs \<Rightarrow> Inr (f # fs)))"

text \<open>\<open>pd.to_numeric(df[name], errors="coerce")\<close>, for a name that is a column label.\<close>

definition numeric_column :: "dataframe \<Rightarrow> string \<Rightarrow> py_error + pyfloat list" where
  "numeric_column df name =
     (if 1 < count_list (columns df) name then Inl TypeError
      else to_numeric_series (map (\<lambda>row. row name) (rows df)))"

text \<open>\<open>dropna\<close> on the two-column frame: a row with a NaN in either column goes.\<close>

definition dropna :: "(pyfloat \<times> pyfloat) list \<Rightarrow> (pyfloat \<times> pyfloat) list" where
  "dropna xs = filter (\<lambda>(t, y). \<not> isnan t \<and> \<not> isnan y) xs"

text \<open>
  \<open>Series.mean()\<close> is the sum over the count; \<open>Series.var(ddof=1)\<close> is NaN for fewer
  than two values and otherwise the sum of squared deviations from the mean over
  \<open>n - 1\<close>. The sums run from left to right.
\<close>

definition fsum :: "pyfloat list \<Rightarrow> pyfloat" where
  "fsum xs = foldl fadd (Fin 0) xs"

definition series_mean :: "pyfloat list \<Rightarrow> pyfloat" where
  "series_mean xs = fdiv (fsum xs) (Fin (real (length xs)))"

definition sq_dev :: "pyfloat \<Rightarrow> pyfloat \<Rightarrow> pyfloat" where
  "sq_dev avg x = fmul (fsub avg x) (fsub avg x)"

definition series_var :: "pyfloat list \<Rightarrow> pyfloat" where
  "series_var xs =
     (if length xs \<le> 1 then NaN
      else fdiv (fsum (map (sq_dev (series_mean xs)) xs)) (Fin (real (length xs - 1))))"

section \<open>\<open>compute_uplift_summary\<close>\<close>

record summary =
  treatment_mean :: pyval
  control_mean :: pyval
  absolute_uplift :: pyval
  relative_uplift_pct :: pyval
  treatment_count :: pyval
  control_count :: pyval
  standard_error :: pyval
  approximate_confidence_interval :: pyval

text \<open>
  Lines 39 to 42: the coerced pairs (treatment, outcome) that survive \<open>dropna\<close>. The
  outcome column is coerced first; an exception of either coercion leaves the function.
\<close>

definition uplift_data ::
  "dataframe \<Rightarrow> string \<Rightarrow> string \<Rightarrow> py_error + (pyfloat \<times> pyfloat) list" where
  "uplift_data df treatment outcome =
     (case numeric_column df outcome of
        Inl e \<Rightarrow> Inl e
      | Inr outcomes \<Rightarrow>
          (case numeric_column df treatment of
             Inl e \<Rightarrow> Inl e
           | Inr treatment_series \<Rightarrow> Inr (dropna (zip treatment_series outcomes))))"

text \<open>Lines 46 and 47: the two partitions.\<close>

definition treated_rows :: "(pyfloat \<times> pyfloat) list \<Rightarrow> (pyfloat \<times> pyfloat) list" where
  "treated_rows data = filter (\<lambda>(t, y). fge t (Fin (1 / 2))) data"

definition control_rows :: "(pyfloat \<times> pyfloat) list \<Rightarrow> (pyfloat \<times> pyfloat) list" where
  "control_rows data = filter (\<lambda>(t, y). flt t (Fin (1 / 2))) data"

text \<open>Lines 60 to 64: the standard error, \<open>None\<close> when it is left undefined.\<close>

definition uplift_se :: "pyfloat \<Rightarrow> pyfloat \<Rightarrow> nat \<Rightarrow> nat \<Rightarrow> py_error + pyfloat option" where
  "uplift_se treated_var control_var treated_n control_n =
     (if 1 < treated_n \<and> 1 < control_n then
        (let se_val = py_max0 (fadd (fdiv treated_var (Fin (real treated_n)))
                                    (fdiv control_var (Fin (real control_n))))
         in if \<not> isnan se_val then
              (case py_sqrt se_val of Inl e \<Rightarrow> Inl e | Inr se \<Rightarrow> Inr (Some se))
            else Inr None)
      else Inr None)"

text \<open>Lines 66 to 69: the approximate confidence interval.\<close>

definition uplift_ci :: "pyfloat \<Rightarrow> pyfloat option \<Rightarrow> pyfloat list option" where
  "uplift_ci absolute_uplift' se =
     (case se of
        None \<Rightarrow> None
      | Some s \<Rightarrow>
          if fgt s (Fin 0) then
            (let z = Fin (196 / 100)
             in Some [fsub absolute_uplift' (fmul z s), fadd absolute_uplift' (fmul z s)])
          else None)"

text \<open>
  Lines 71 to 76: the relative uplift. The means are numpy doubles, for which division
  raises nothing, and the guard has excluded a zero divisor.
\<close>

definition uplift_relative :: "pyfloat \<Rightarrow> pyfloat \<Rightarrow> pyfloat option" where
  "uplift_relative absolute_uplift' control_mean' =
     (if control_mean' \<noteq> Fin 0 then
        Some (fmul (fdiv absolute_uplift' control_mean') (Fin 100))
      else None)"

definition np_float_or_none :: "pyfloat option \<Rightarrow> pyval" where
  "np_float_or_none x = (case x of None \<Rightarrow> PyNone | Some f \<Rightarrow> NpFloating f)"

definition py_float_or_none :: "pyfloat option \<Rightarrow> pyval" where
  "py_float_or_none x = (case x of None \<Rightarrow> PyNone | Some f \<Rightarrow> PyFloat f)"

definition compute_uplift_summary ::
  "dataframe \<Rightarrow> string \<Rightarrow> string \<Rightarrow> py_error + summary option" where
  "compute_uplift_summary df treatment outcome =
     (if treatment \<notin> set (columns df) \<or> outcome \<notin> set (columns df) then Inr None
      else
        (case uplift_data df treatment outcome of
           Inl e \<Rightarrow> Inl e
         | Inr data \<Rightarrow>
        if data = [] then Inr None
        else
          let treated = treated_rows data;
              control = control_rows data
          in
          if treated = [] \<or> control = [] then Inr None
          else
            let treated_mean = series_mean (map snd treated);
                control_mean' = series_mean (map snd control);
                absolute_uplift' = fsub treated_mean control_mean';
                treated_var = series_var (map snd treated);
                control_var = series_var (map snd control);
                treated_n = length treated;
                control_n = length control
            in
            (case uplift_se treated_var control_var treated_n control_n of
              Inl e \<Rightarrow> Inl e
            | Inr se \<Rightarrow>
                let approx_ci = uplift_ci absolute_uplift' se;
                    relative = uplift_relative absolute_uplift' control_mean'
                in
                Inr (Some \<lparr>
                  treatment_mean = safe_float (NpFloating treated_mean),
                  control_mean = safe_float (NpFloating control_mean'),
                  absolute_uplift = safe_float (NpFloating absolute_uplift'),
                  relative_uplift_pct = safe_float (np_float_or_none relative),
                  treatment_count = PyInt (int treated_n),
                  control_count = PyInt (int control_n),
                  standard_error = safe_float (py_float_or_none se),
                  approximate_confidence_interval =
                    (case approx_ci of
                       None \<Rightarrow> PyNone
                     | Some ci \<Rightarrow> PyList (map (\<lambda>x. safe_float (NpFloating x)) ci))
                \<rparr>))))"

section \<open>\<open>estimate_causal_effect\<close>\<close>

text \<open>
  The causal model, its estimate and its refutation come from an external library. What
  the function reads from them is gathered in a record: the estimate's value, the
  result of \<open>get_confidence_intervals()\<close>, the \<open>p_value\<close> of the significance test
  (\<open>None\<close> when \<open>test_stat_significance()\<close> is empty) and the refutation's
  \<open>new_effect\<close> (\<open>None\<close> when there is no refutation). The library run is a parameter
  of the model.
\<close>

record estimator_output =
  est_value :: pyval
  est_confidence_intervals :: pyval
  est_p_value :: "pyval option"
  refutation_new_effect :: "pyval option"

record causal_result =
  estimate_value :: pyval
  confidence_intervals :: pyval
  p_value :: pyval
  refutation_result :: pyval
  uplift_summary :: "summary option"

text \<open>Iterating over a value: arrays and lists yield their entries, the rest raise.\<close>

fun py_iter :: "pyval \<Rightarrow> py_error + pyval list" where
  "py_iter (NdArray xs) = Inr xs"
| "py_iter (PyList xs) = Inr xs"
| "py_iter v = Inl TypeError"

text \<open>Truth value of \<open>None\<close> or a list, the only values tested on line 131.\<close>

fun py_truthy :: "pyval \<Rightarrow> bool" where
  "py_truthy PyNone = False"
| "py_truthy (PyList xs) = (xs \<noteq> [])"
| "py_truthy v = True"

fun any_is_none :: "pyval \<Rightarrow> bool" where
  "any_is_none (PyList xs) = (PyNone \<in> set xs)"
| "any_is_none v = False"

text \<open>Lines 127 to 132: the sanitised interval and its fallback.\<close>

definition sanitize_conf_ints :: "pyval \<Rightarrow> py_error + pyval" where
  "sanitize_conf_ints conf_ints =
     (if conf_ints \<noteq> PyNone then
        (case py_iter conf_ints of
           Inl e \<Rightarrow> Inl e
         | Inr xs \<Rightarrow> Inr (PyList (map safe_float xs)))
      else Inr PyNone)"

definition fallback_conf_ints :: "pyval \<Rightarrow> summary option \<Rightarrow> pyval" where
  "fallback_conf_ints conf_ints uplift =
     (if (\<not> py_truthy conf_ints \<or> any_is_none conf_ints)
         \<and> (case uplift of
              None \<Rightarrow> False
            | Some s \<Rightarrow> py_truthy (approximate_confidence_interval s))
      then approximate_confidence_interval (the uplift)
      else conf_ints)"

definition estimate_causal_effect ::
  "(dataframe \<Rightarrow> string \<Rightarrow> string \<Rightarrow> string list \<Rightarrow> estimator_output) \<Rightarrow>
   dataframe \<Rightarrow> string \<Rightarrow> string \<Rightarrow> string list \<Rightarrow> py_error + causal_result" where
  "estimate_causal_effect run_library df treatment outcome confounders =
     (let confounders' = filter (\<lambda>c. c \<noteq> treatment \<and> c \<noteq> outcome) confounders in
      (case compute_uplift_summary df treatment outcome of
         Inl e \<Rightarrow> Inl e
       | Inr uplift \<Rightarrow>
           (let out = run_library df treatment outcome confounders' in
            (case sanitize_conf_ints (est_confidence_intervals out) of
               Inl e \<Rightarrow> Inl e
             | Inr conf_ints \<Rightarrow>
                 Inr \<lparr>
                   estimate_value = safe_float (est_value out),
                   confidence_intervals = fallback_conf_ints conf_ints uplift,
                   p_value = (case est_p_value out of
                                None \<Rightarrow> PyNone | Some p \<Rightarrow> safe_float p),
                   refutation_result = (case refutation_new_effect out of
                                          None \<Rightarrow> PyNone | Some r \<Rightarrow> safe_float r),
                   uplift_summary = uplift
                 \<rparr>))))"

section \<open>Notions used in the statements\<close>

text \<open>A sanitised number: \<open>None\<close> or a native float that is finite.\<close>

fun finite_or_null :: "pyval \<Rightarrow> bool" where
  "finite_or_null PyNone = True"
| "finite_or_null (PyFloat (Fin r)) = True"
| "finite_or_null v = False"

fun is_native_int :: "pyval \<Rightarrow> bool" where
  "is_native_int (PyInt n) = True"
| "is_native_int v = False"

text \<open>A sanitised interval: \<open>None\<close>, or a list of two sanitised numbers.\<close>

definition interval_finite_or_null :: "pyval \<Rightarrow> bool" where
  "interval_finite_or_null v =
     (case v of
        PyNone \<Rightarrow> True
      | PyList xs \<Rightarrow> length xs = 2 \<and> list_all finite_or_null xs
      | _ \<Rightarrow> False)"

text \<open>A list that holds, at any depth, nothing but lists.\<close>

fun nested_empty :: "pyval \<Rightarrow> bool" where
  "nested_empty (PyList xs) = list_all nested_empty xs"
| "nested_empty v = False"

text \<open>
  What the claims say of a cell, stated on the cell itself: it coerces to a number, and
  the number is at least, or below, one half.
\<close>

fun coerces_to_number :: "cell \<Rightarrow> bool" where
  "coerces_to_number (Number r) = True"
| "coerces_to_number (Integer i) = True"
| "coerces_to_number PosInfinity = True"
| "coerces_to_number NegInfinity = True"
| "coerces_to_number Missing = False"
| "coerces_to_number (Text s) = False"



text \<open>The rows of the dataset whose treatment and outcome cells both coerce to a number.\<close>

definition coercible_rows :: "dataframe \<Rightarrow> string \<Rightarrow> string \<Rightarrow> (string \<Rightarrow> cell) list" where
  "coercible_rows df treatment outcome =
     filter (\<lambda>row. coerces_to_number (row treatment) \<and> coerces_to_number (row outcome))
       (rows df)"

text \<open>
  The inputs on which the coercion of lines 39 and 40 raises: a selected label occurs
  more than once, or a selected column holds an integer beyond the range of a double.
\<close>

fun int_out_of_range :: "cell \<Rightarrow> bool" where
  "int_out_of_range (Integer i) = (dbl_overflow \<le> \<bar>real_of_int i\<bar>)"
| "int_out_of_range c = False"

definition coercion_raises :: "dataframe \<Rightarrow> string \<Rightarrow> string \<Rightarrow> bool" where
  "coercion_raises df treatment outcome =
     (1 < count_list (columns df) outcome \<or> 1 < count_list (columns df) treatment
      \<or> list_ex (\<lambda>row. int_out_of_range (row outcome) \<or> int_out_of_range (row treatment))
           (rows df))"


text \<open>
  The conditions under which the function goes past its early returns (lines 36, 43
  and 48), on the code's own intermediate values; \<open>cell_float\<close> is the double a cell
  is coerced to and \<open>coerced_data\<close> the frame of line 42, when the coercion has not
  raised.
\<close>

definition cell_float :: "cell \<Rightarrow> pyfloat" where
  "cell_float c = (case to_numeric c of Inl e \<Rightarrow> NaN | Inr f \<Rightarrow> f)"

definition coerced_data :: "dataframe \<Rightarrow> string \<Rightarrow> string \<Rightarrow> (pyfloat \<times> pyfloat) list" where
  "coerced_data df treatment outcome =
     (case uplift_data df treatment outcome of Inl e \<Rightarrow> [] | Inr data \<Rightarrow> data)"

definition present_condition :: "dataframe \<Rightarrow> string \<Rightarrow> string \<Rightarrow> bool" where
  "present_condition df treatment outcome =
     (treatment \<in> set (columns df) \<and> outcome \<in> set (columns df)
      \<and> (case uplift_data df treatment outcome of
            Inl e \<Rightarrow> False
          | Inr data \<Rightarrow> treated_rows data \<noteq> [] \<and> control_rows data \<noteq> []))"

text \<open>
  The intermediate values of \<open>compute_uplift_summary\<close>, as functions of its arguments:
  the outcome columns of the two partitions, the uplift and the standard error before
  they are sanitised, and the value under the square root.
\<close>

definition treated_outcomes :: "dataframe \<Rightarrow> string \<Rightarrow> string \<Rightarrow> pyfloat list" where
  "treated_outcomes df treatment outcome =
     map snd (treated_rows (coerced_data df treatment outcome))"

definition control_outcomes :: "dataframe \<Rightarrow> string \<Rightarrow> string \<Rightarrow> pyfloat list" where
  "control_outcomes df treatment outcome =
     map snd (control_rows (coerced_data df treatment outcome))"

definition raw_uplift :: "dataframe \<Rightarrow> string \<Rightarrow> string \<Rightarrow> pyfloat" where
  "raw_uplift df treatment outcome =
     fsub (series_mean (treated_outcomes df treatment outcome))
          (series_mean (control_outcomes df treatment outcome))"

definition raw_se :: "dataframe \<Rightarrow> string \<Rightarrow> string \<Rightarrow> py_error + pyfloat option" where
  "raw_se df treatment outcome =
     uplift_se (series_var (treated_outcomes df treatment outcome))
               (series_var (control_outcomes df treatment outcome))
               (length (treated_outcomes df treatment outcome))
               (length (control_outcomes df treatment outcome))"

definition se_radicand :: "dataframe \<Rightarrow> string \<Rightarrow> string \<Rightarrow> pyfloat" where
  "se_radicand df treatment outcome =
     py_max0 (fadd (fdiv (series_var (treated_outcomes df treatment outcome))
                         (Fin (real (length (treated_outcomes df treatment outcome)))))
                   (fdiv (series_var (control_outcomes df treatment outcome))
                         (Fin (real (length (control_outcomes df treatment outcome))))))"

text \<open>A field of the returned summary, \<open>None\<close> when no summary is returned.\<close>

definition summary_field ::
  "(summary \<Rightarrow> pyval) \<Rightarrow> py_error + summary option \<Rightarrow> pyval option" where
  "summary_field f r = (case r of Inr (Some s) \<Rightarrow> Some (f s) | _ \<Rightarrow> None)"

definition result_conf_ints :: "py_error + causal_result \<Rightarrow> pyval option" where
  "result_conf_ints r = (case r of Inr x \<Rightarrow> Some (confidence_intervals x) | Inl e \<Rightarrow> None)"

section \<open>Example inputs\<close>

text \<open>A row of a dataset with the columns \<open>treatment\<close> and \<open>outcome\<close>.\<close>

definition row2 :: "cell \<Rightarrow> cell \<Rightarrow> string \<Rightarrow> cell" where
  "row2 t y = (\<lambda>c. if c = ''treatment'' then t else if c = ''outcome'' then y else Missing)"

text \<open>The four-row dataset of the spec's concrete scenario.\<close>

definition df_example :: dataframe where
  "df_example =
     \<lparr> columns = [''treatment'', ''outcome''],
       rows = [row2 (Number 1) (Number 10), row2 (Number 1) (Number 20),
               row2 (Number 0) (Number 5), row2 (Number 0) (Number 7)] \<rparr>"

text \<open>
  A dataset whose treated outcomes are \<open>1e200\<close> and \<open>-1e200\<close>: their mean is zero and
  the squares of their deviations exceed the range of a double.
\<close>

definition huge :: real where
  "huge = 10 ^ 200"

definition df_overflow :: dataframe where
  "df_overflow =
     \<lparr> columns = [''treatment'', ''outcome''],
       rows = [row2 (Number 1) (Number huge), row2 (Number 1) (Number (- huge)),
               row2 (Number 0) (Number 0), row2 (Number 0) (Number 1)] \<rparr>"

text \<open>
  A dataset with one treated outcome \<open>1e307\<close> and one control outcome \<open>1\<close>: the uplift
  is a double, a hundred times the uplift is not.
\<close>

definition large :: real where
  "large = 10 ^ 307"

definition df_large :: dataframe where
  "df_large =
     \<lparr> columns = [''treatment'', ''outcome''],
       rows = [row2 (Number 1) (Number large), row2 (Number 0) (Number 1)] \<rparr>"


definition df_duplicate :: dataframe where
  "df_duplicate =
     \<lparr> columns = [''treatment'', ''outcome'', ''outcome''],
       rows = [row2 (Number 1) (Number 10), row2 (Number 0) (Number 5)] \<rparr>"

text \<open>A dataset whose only control outcome is zero.\<close>

definition df_zero_control :: dataframe where
  "df_zero_control =
     \<lparr> columns = [''treatment'', ''outcome''],
       rows = [row2 (Number 1) (Number 5), row2 (Number 0) (Number 0)] \<rparr>"

text \<open>
  A library run whose confidence interval is a two-dimensional array of shape
  \<open>(1, 2)\<close>, one row of bounds per treatment, with a NaN lower bound.
\<close>

definition lib_nested_nan ::
  "dataframe \<Rightarrow> string \<Rightarrow> string \<Rightarrow> string list \<Rightarrow> estimator_output" where
  "lib_nested_nan df treatment outcome confounders =
     \<lparr> est_value = NpFloating (Fin 9),
       est_confidence_intervals = NdArray [NdArray [NpFloating NaN, NpFloating (Fin 12)]],
       est_p_value = Some (NpFloating (Fin (1 / 100))),
       refutation_new_effect = Some (NpFloating (Fin 0)) \<rparr>"

section \<open>Facts about the float model\<close>

lemma to_double_small: "\<bar>x\<bar> \<le> 2 ^ 1023 \<Longrightarrow> to_double x = Fin x"
  unfolding to_double_def dbl_max_def dbl_overflow_def by auto

lemma to_double_big: "2 ^ 1024 \<le> x \<Longrightarrow> to_double x = PInf"
  unfolding to_double_def dbl_overflow_def by auto

lemma dbl_consts:
  "0 < dbl_max" "dbl_max < dbl_overflow" "dbl_overflow = dbl_max + 2 ^ 970"
  "2 ^ 1023 \<le> dbl_max"
  unfolding dbl_max_def dbl_overflow_def by simp_all

lemma to_double_in_range: "\<bar>x\<bar> \<le> dbl_max \<Longrightarrow> to_double x = Fin x"
  using dbl_consts(2) unfolding to_double_def by (auto simp: abs_le_iff)

lemma to_double_bounded: "to_double x = Fin v \<Longrightarrow> \<bar>v\<bar> \<le> dbl_max"
  unfolding to_double_def dbl_max_def dbl_overflow_def
  by (auto split: if_splits)

lemma to_double_below:
  assumes "- dbl_overflow < x" "x \<le> a" "\<bar>a\<bar> \<le> dbl_max"
  shows "\<exists>lo. to_double x = Fin lo \<and> lo \<le> a"
proof (cases "x < - dbl_max")
  case True
  then have "to_double x = Fin (- dbl_max)"
    using assms dbl_consts unfolding to_double_def by auto
  then show ?thesis using assms(3) by (auto simp: abs_le_iff)
next
  case False
  then have "to_double x = Fin x"
    using assms dbl_consts unfolding to_double_def by (auto simp: abs_le_iff)
  then show ?thesis using assms(2) by simp
qed

lemma to_double_above:
  assumes "x < dbl_overflow" "a \<le> x" "\<bar>a\<bar> \<le> dbl_max"
  shows "\<exists>hi. to_double x = Fin hi \<and> a \<le> hi"
proof (cases "dbl_max < x")
  case True
  then have "to_double x = Fin dbl_max"
    using assms dbl_consts unfolding to_double_def by auto
  then show ?thesis using assms(3) by (auto simp: abs_le_iff)
next
  case False
  then have "to_double x = Fin x"
    using assms dbl_consts unfolding to_double_def by (auto simp: abs_le_iff)
  then show ?thesis using assms(2) by simp
qed

lemma sqrt_dbl_max:
  assumes "0 \<le> v" "v \<le> dbl_max"
  shows "sqrt v \<le> 2 ^ 512"
proof -
  have "dbl_max \<le> (2 ^ 512) ^ 2" unfolding dbl_max_def by simp
  then have "v \<le> (2 ^ 512) ^ 2" using assms by linarith
  then show ?thesis by (intro real_le_lsqrt) simp_all
qed

lemma fadd_Fin:
  "fadd a b = Fin v \<Longrightarrow> \<exists>x y. a = Fin x \<and> b = Fin y \<and> to_double (x + y) = Fin v"
  by (cases a; cases b) simp_all

lemma fdiv_Fin_left: "fdiv a (Fin n) = Fin v \<Longrightarrow> \<exists>x. a = Fin x"
  by (cases a) (simp_all add: inf_of_sign_def split: if_splits)

lemma py_max0_Fin_pos: "py_max0 a = Fin v \<Longrightarrow> 0 < v \<Longrightarrow> a = Fin v"
  by (cases a) (auto simp: py_max0_def fgt_def split: if_splits)

subsection \<open>The rounding of integers\<close>

lemma excess_bits_zero: "n < 2 ^ 53 \<Longrightarrow> excess_bits n = 0"
  by (simp add: excess_bits.simps)

lemma excess_bits_Suc: "2 ^ 53 \<le> n \<Longrightarrow> excess_bits n = Suc (excess_bits (n div 2))"
  by (subst excess_bits.simps) simp

lemma excess_bits_le: "n < 2 ^ (53 + k) \<Longrightarrow> excess_bits n \<le> k"
proof (induction k arbitrary: n)
  case 0
  then show ?case by (simp add: excess_bits_zero)
next
  case (Suc k)
  show ?case
  proof (cases "n < 2 ^ 53")
    case True
    then show ?thesis by (simp add: excess_bits_zero)
  next
    case False
    have "n < 2 * 2 ^ (53 + k)" using Suc.prems by (simp only: add_Suc_right power_Suc)
    then have "n div 2 < 2 ^ (53 + k)" by linarith
    then have "excess_bits (n div 2) \<le> k" by (rule Suc.IH)
    then show ?thesis using False by (simp add: excess_bits_Suc)
  qed
qed


lemma round_nat53_small: "n \<le> 2 ^ 53 \<Longrightarrow> round_nat53 n = n"
proof (cases "n < 2 ^ 53")
  case True
  then show ?thesis by (simp add: round_nat53_def Let_def excess_bits_zero)
next
  case False
  assume "n \<le> 2 ^ 53"
  then have n: "n = 2 ^ 53" using False by linarith
  have e: "excess_bits n = 1" unfolding n by (simp add: excess_bits_Suc excess_bits_zero)
  have u: "round_nat53 n
      = (if 1 < n mod 2 \<or> (n mod 2 = 1 \<and> odd (n div 2)) then n div 2 + 1 else n div 2) * 2"
    by (simp add: round_nat53_def Let_def e)
  have d: "n div 2 = 2 ^ 52" "n mod 2 = 0" unfolding n by simp_all
  have "round_nat53 n = 2 ^ 52 * 2" unfolding u d by simp
  then show ?thesis unfolding n by simp
qed

lemma round_int53_small: "\<bar>i\<bar> \<le> 2 ^ 53 \<Longrightarrow> round_int53 i = i"
proof -
  assume "\<bar>i\<bar> \<le> 2 ^ 53"
  then have "nat \<bar>i\<bar> \<le> 2 ^ 53" by (simp add: nat_le_iff)
  then have "round_nat53 (nat \<bar>i\<bar>) = nat \<bar>i\<bar>" by (rule round_nat53_small)
  then show ?thesis by (simp add: round_int53_def sgn_if)
qed

lemma round_nat53_error:
  "int (round_nat53 n) - int n \<le> 2 ^ excess_bits n div 2
   \<and> int n - int (round_nat53 n) \<le> 2 ^ excess_bits n div 2"
proof (cases "excess_bits n")
  case 0
  then show ?thesis by (simp add: round_nat53_def Let_def)
next
  case (Suc k)
  define h :: nat where "h = 2 ^ k"
  define q where "q = n div (2 * h)"
  define r where "r = n mod (2 * h)"
  define P where "P = int q * (2 * int h)"
  have hpos: "0 < h" unfolding h_def by simp
  have bound: "(2::int) ^ excess_bits n div 2 = int h" using Suc by (simp add: h_def)
  have "n = q * (2 * h) + r" unfolding q_def r_def by (rule div_mult_mod_eq [symmetric])
  then have "int n = int (q * (2 * h) + r)" by simp
  then have n: "int n = P + int r" by (simp add: P_def)
  have r: "int r < 2 * int h" using hpos unfolding r_def
    by (metis mod_less_divisor mult_pos_pos of_nat_less_iff of_nat_mult of_nat_numeral zero_less_numeral)
  have unfold: "round_nat53 n = (if h < r \<or> (r = h \<and> odd q) then q + 1 else q) * (2 * h)"
    using Suc by (simp add: round_nat53_def Let_def q_def r_def h_def)
  show ?thesis
  proof (cases "h < r \<or> (r = h \<and> odd q)")
    case True
    then have "round_nat53 n = (q + 1) * (2 * h)" unfolding unfold by (simp only: if_True)
    then have "int (round_nat53 n) = int ((q + 1) * (2 * h))" by simp
    then have rn: "int (round_nat53 n) = P + 2 * int h" by (simp add: P_def algebra_simps)
    have "int h \<le> int r" using True by auto
    then show ?thesis using rn n r bound by linarith
  next
    case False
    then have "round_nat53 n = q * (2 * h)" unfolding unfold by (simp only: if_False)
    then have "int (round_nat53 n) = int (q * (2 * h))" by simp
    then have rn: "int (round_nat53 n) = P" by (simp add: P_def)
    have "int r \<le> int h" using False by auto
    then show ?thesis using rn n bound by linarith
  qed
qed



lemma round_int53_error: "\<bar>i\<bar> < 2 ^ 64 \<Longrightarrow> \<bar>round_int53 i - i\<bar> \<le> 1024"
proof -
  assume a: "\<bar>i\<bar> < 2 ^ 64"
  define n where "n = nat \<bar>i\<bar>"
  have "n < 2 ^ (53 + 11)" using a unfolding n_def by simp
  then have k: "excess_bits n \<le> 11" by (rule excess_bits_le)
  have "(2::int) ^ excess_bits n \<le> 2 ^ 11" using k by (intro power_increasing) simp_all
  then have h: "(2::int) ^ excess_bits n div 2 \<le> 1024" by simp
  have e: "\<bar>int (round_nat53 n) - int n\<bar> \<le> 1024"
    using round_nat53_error [of n] h by linarith
  have "round_int53 i - i = sgn i * (int (round_nat53 n) - int n)"
    unfolding round_int53_def n_def by (simp add: algebra_simps sgn_if)
  then show ?thesis using e by (simp add: abs_mult sgn_if split: if_splits)
qed

lemma int_to_float_small:
  assumes "\<bar>i\<bar> \<le> 2 ^ 53"
  shows "int_to_float i = Some (Fin (real_of_int i))"
proof -
  have "\<bar>real_of_int i\<bar> \<le> 2 ^ 53"
    using assms by (metis of_int_abs of_int_le_iff of_int_numeral of_int_power)
  moreover have "(2::real) ^ 53 \<le> 2 ^ 1023" by simp
  ultimately have b: "\<bar>real_of_int i\<bar> \<le> 2 ^ 1023" by linarith
  have "\<bar>real_of_int i\<bar> < dbl_overflow"
    using b unfolding dbl_overflow_def by simp
  then show ?thesis
    using b by (simp add: int_to_float_def round_int53_small [OF assms] to_double_small)
qed

lemma int_to_float_64:
  assumes "\<bar>i\<bar> < 2 ^ 64"
  shows "int_to_float i = Some (Fin (real_of_int (round_int53 i)))"
proof -
  have e: "\<bar>round_int53 i - i\<bar> \<le> 1024" using assms by (rule round_int53_error)
  have "\<bar>real_of_int i\<bar> < 2 ^ 64"
    using assms by (metis of_int_abs of_int_less_iff of_int_numeral of_int_power)
  moreover have "(2::real) ^ 64 \<le> 2 ^ 1022" by simp
  ultimately have b: "\<bar>real_of_int i\<bar> \<le> 2 ^ 1022" by linarith
  have "\<bar>real_of_int (round_int53 i) - real_of_int i\<bar> \<le> 1024"
    using e by (metis of_int_abs of_int_diff of_int_le_iff of_int_numeral)
  moreover have "(1024::real) \<le> 2 ^ 1022" by simp
  moreover have "(2::real) ^ 1022 + 2 ^ 1022 = 2 ^ 1023" by simp
  ultimately have r: "\<bar>real_of_int (round_int53 i)\<bar> \<le> 2 ^ 1023" using b by linarith
  have "(2::real) ^ 1022 < 2 ^ 1023" by simp
  then have "\<bar>real_of_int i\<bar> < dbl_overflow"
    using b dbl_consts by linarith
  then show ?thesis using r by (simp add: int_to_float_def to_double_small)
qed

subsection \<open>Cells and their coercion\<close>





lemma to_numeric_raises: "to_numeric c = Inl e \<longleftrightarrow> int_out_of_range c \<and> e = OverflowError"
  by (cases c) (auto simp: int_to_float_def)

lemma to_numeric_cell_float: "\<not> int_out_of_range c \<Longrightarrow> to_numeric c = Inr (cell_float c)"
  by (cases c) (auto simp: int_to_float_def cell_float_def)

lemma cell_float_coerces:
  "\<not> int_out_of_range c \<Longrightarrow> \<not> isnan (cell_float c) \<longleftrightarrow> coerces_to_number c"
  by (cases c) (auto simp: cell_float_def int_to_float_def isnan_def to_double_def)



lemma to_numeric_series_eq:
  "to_numeric_series cs
   = (if list_ex int_out_of_range cs then Inl OverflowError else Inr (map cell_float cs))"
proof (induction cs)
  case Nil
  then show ?case by simp
next
  case (Cons c cs)
  show ?case
  proof (cases "int_out_of_range c")
    case True
    then have "to_numeric c = Inl OverflowError" by (simp add: to_numeric_raises)
    then show ?thesis using True by simp
  next
    case False
    then show ?thesis using Cons.IH by (simp add: to_numeric_cell_float)
  qed
qed

lemma numeric_column_eq:
  "numeric_column df name
   = (if 1 < count_list (columns df) name then Inl TypeError
      else if list_ex (\<lambda>row. int_out_of_range (row name)) (rows df) then Inl OverflowError
      else Inr (map (\<lambda>row. cell_float (row name)) (rows df)))"
  by (simp add: numeric_column_def to_numeric_series_eq list_ex_iff o_def)

lemma zip_map_same: "zip (map f xs) (map g xs) = map (\<lambda>x. (f x, g x)) xs"
  by (induction xs) simp_all

lemma uplift_data_raises:
  "coercion_raises df t y \<Longrightarrow> \<exists>e. uplift_data df t y = Inl e"
  by (auto simp: coercion_raises_def uplift_data_def numeric_column_eq list_ex_iff)

lemma coercible_rows_eq:
  assumes "\<not> coercion_raises df t y"
  shows "coercible_rows df t y
         = filter (\<lambda>row. \<not> isnan (cell_float (row t)) \<and> \<not> isnan (cell_float (row y))) (rows df)"
  unfolding coercible_rows_def
  by (rule filter_cong)
    (use assms in \<open>auto simp: coercion_raises_def list_ex_iff cell_float_coerces\<close>)

lemma uplift_data_ok:
  assumes "\<not> coercion_raises df t y"
  shows "uplift_data df t y
         = Inr (map (\<lambda>row. (cell_float (row t), cell_float (row y))) (coercible_rows df t y))"
proof -
  have "uplift_data df t y
        = Inr (dropna (map (\<lambda>row. (cell_float (row t), cell_float (row y))) (rows df)))"
    using assms
    by (simp add: coercion_raises_def uplift_data_def numeric_column_eq zip_map_same list_ex_iff)
  then show ?thesis
    by (simp add: coercible_rows_eq [OF assms] dropna_def filter_map o_def case_prod_beta)
qed

lemma uplift_data_Inr_no_raise: "uplift_data df t y = Inr data \<Longrightarrow> \<not> coercion_raises df t y"
  using uplift_data_raises by fastforce





lemma sanitize_float:
  "float_or_none (PyFloat f) = (case f of Fin r \<Rightarrow> PyFloat (Fin r) | _ \<Rightarrow> PyNone)"
  by (cases f) (simp_all add: float_or_none_def isnan_def isinf_def)

lemma finite_or_null_float_or_none: "finite_or_null (float_or_none v)"
proof (cases "py_float v")
  case None
  then show ?thesis by (simp add: float_or_none_def)
next
  case (Some f)
  then show ?thesis by (cases f) (simp_all add: float_or_none_def isnan_def isinf_def)
qed

lemma py_sqrt_max0: "\<exists>s. py_sqrt (py_max0 a) = Inr s"
  by (cases a) (auto simp: py_max0_def fgt_def)

section \<open>\<open>safe_float\<close>\<close>

lemma nd_flat_no_array: "x \<in> set (nd_flat v) \<Longrightarrow> x \<noteq> NdArray ys"
  by (induction v rule: nd_flat.induct) auto

lemma safe_float_leaf:
  "(\<And>ys. v \<noteq> NdArray ys) \<Longrightarrow> safe_float v = float_or_none (np_item v)"
  by (cases v) auto

lemma nd_size_zero_elems:
  "nd_size (NdArray xs) = 0 \<Longrightarrow> x \<in> set xs \<Longrightarrow> nd_size x = 0"
  by (auto simp: nd_size_def)

lemma safe_float_empty_nested: "nd_size v = 0 \<Longrightarrow> nested_empty (safe_float v)"
proof (induction v)
  case (NdArray xs)
  have "nested_empty (safe_float x)" if "x \<in> set xs" for x
    using NdArray.IH [OF that] nd_size_zero_elems [OF NdArray.prems that] by simp
  then show ?case using NdArray.prems by (simp add: list_all_iff)
qed (auto simp: nd_size_def)

lemma big_example: "round_int53 (2 ^ 53 + 1) = 2 ^ 53"
proof -
  have "excess_bits (2 ^ 53 + 1) = 1" by (simp add: excess_bits_Suc excess_bits_zero)
  then have "round_nat53 (2 ^ 53 + 1) = 2 ^ 53" by (simp add: round_nat53_def Let_def)
  moreover have "nat \<bar>2 ^ 53 + 1\<bar> = 2 ^ 53 + 1" by simp
  ultimately show ?thesis unfolding round_int53_def by simp
qed

lemma safe_float_int64:
  assumes "- (2 ^ 63) \<le> i \<and> i < 2 ^ 64"
  shows "safe_float (NpInteger i) = PyFloat (Fin (real_of_int (round_int53 i)))"
proof -
  have "\<bar>i\<bar> < 2 ^ 64" using assms by (simp, linarith)
  then show ?thesis
    by (simp add: float_or_none_def int_to_float_64 isnan_def isinf_def)
qed

text \<open>
  Claim C3, as amended. \<open>safe_float\<close> returns a finite numpy floating scalar as the
  native float of the same value. It returns a numpy integer scalar (of at most 64
  bits) as the double nearest to it: equal to it when its magnitude is at most
  \<open>2 ^ 53\<close>, and within 1024 of it in any case. It returns \<open>None\<close> for NaN and for both
  infinities; it returns \<open>None\<close> for a value that is not an array and whose conversion by
  \<open>float\<close> raises; on an array of exactly one element it returns what it returns on that
  element; on an array of more than one element it returns the list of its results on
  the entries along the first axis, in order, so that sub-arrays are handled by the same
  rules.
\<close>

theorem safe_float_rules:
  "(\<forall>r. safe_float (NpFloating (Fin r)) = PyFloat (Fin r))
   \<and> (\<forall>i. \<bar>i\<bar> \<le> 2 ^ 53 \<longrightarrow> safe_float (NpInteger i) = PyFloat (Fin (real_of_int i)))
   \<and> (\<forall>i. - (2 ^ 63) \<le> i \<and> i < 2 ^ 64 \<longrightarrow>
          safe_float (NpInteger i) = PyFloat (Fin (real_of_int (round_int53 i)))
          \<and> \<bar>round_int53 i - i\<bar> \<le> 1024)
   \<and> safe_float (NpFloating NaN) = PyNone
   \<and> safe_float (NpFloating PInf) = PyNone
   \<and> safe_float (NpFloating NInf) = PyNone
   \<and> safe_float (PyFloat NaN) = PyNone
   \<and> safe_float (PyFloat PInf) = PyNone
   \<and> safe_float (PyFloat NInf) = PyNone
   \<and> (\<forall>v. (\<forall>ys. v \<noteq> NdArray ys) \<and> py_float (np_item v) = None \<longrightarrow>
          safe_float v = PyNone)
   \<and> (\<forall>xs. nd_size (NdArray xs) = 1 \<longrightarrow>
          safe_float (NdArray xs) = safe_float (hd (nd_flat (NdArray xs))))
   \<and> (\<forall>xs. 1 < nd_size (NdArray xs) \<longrightarrow>
          safe_float (NdArray xs) = PyList (map safe_float xs))"
proof -
  have small: "safe_float (NpInteger i) = PyFloat (Fin (real_of_int i))"
    if "\<bar>i\<bar> \<le> 2 ^ 53" for i
    using that by (simp add: float_or_none_def int_to_float_small isnan_def isinf_def)
  have int: "safe_float (NpInteger i) = PyFloat (Fin (real_of_int (round_int53 i)))
             \<and> \<bar>round_int53 i - i\<bar> \<le> 1024"
    if "- (2 ^ 63) \<le> i \<and> i < 2 ^ 64" for i
  proof -
    have "\<bar>i\<bar> < 2 ^ 64" using that by (simp, linarith)
    then have "\<bar>round_int53 i - i\<bar> \<le> 1024" by (rule round_int53_error)
    then show ?thesis using safe_float_int64 [OF that] by simp
  qed
  have fail: "safe_float v = PyNone"
    if "(\<forall>ys. v \<noteq> NdArray ys) \<and> py_float (np_item v) = None" for v
    using that safe_float_leaf [of v] by (simp add: float_or_none_def)
  have one: "safe_float (NdArray xs) = safe_float (hd (nd_flat (NdArray xs)))"
    if "nd_size (NdArray xs) = 1" for xs
  proof -
    have "length (nd_flat (NdArray xs)) = 1"
      using that by (simp only: nd_size_def)
    then have "nd_flat (NdArray xs) \<noteq> []"
      by (metis length_0_conv zero_neq_one)
    then have "hd (nd_flat (NdArray xs)) \<in> set (nd_flat (NdArray xs))"
      by (rule hd_in_set)
    then have "\<And>ys. hd (nd_flat (NdArray xs)) \<noteq> NdArray ys"
      by (rule nd_flat_no_array)
    then have "safe_float (hd (nd_flat (NdArray xs)))
               = float_or_none (np_item (hd (nd_flat (NdArray xs))))"
      by (rule safe_float_leaf)
    then show ?thesis using that by (simp add: nd_item_def)
  qed
  have many: "safe_float (NdArray xs) = PyList (map safe_float xs)"
    if "1 < nd_size (NdArray xs)" for xs
    using that by simp
  have specials: "safe_float (NpFloating NaN) = PyNone" "safe_float (NpFloating PInf) = PyNone"
    "safe_float (NpFloating NInf) = PyNone" "safe_float (PyFloat NaN) = PyNone"
    "safe_float (PyFloat PInf) = PyNone" "safe_float (PyFloat NInf) = PyNone"
    "\<And>r. safe_float (NpFloating (Fin r)) = PyFloat (Fin r)"
    by (simp_all add: float_or_none_def isnan_def isinf_def)
  show ?thesis using small int fail one many specials by blast
qed

theorem safe_float_rules_witness:
  "safe_float (NpInteger 3) = PyFloat (Fin 3)
   \<and> safe_float (NpInteger (2 ^ 53 + 1)) = PyFloat (Fin (2 ^ 53))
   \<and> safe_float (PyList []) = PyNone
   \<and> safe_float (NdArray [NdArray [NpFloating (Fin 2)]]) = safe_float (NpFloating (Fin 2))
   \<and> safe_float (NdArray [NpFloating (Fin 1), NpFloating NaN])
       = PyList [safe_float (NpFloating (Fin 1)), safe_float (NpFloating NaN)]"
proof -
  have a: "\<bar>3::int\<bar> \<le> 2 ^ 53 \<longrightarrow>
           safe_float (NpInteger 3) = PyFloat (Fin (real_of_int 3))"
    using safe_float_rules by blast
  have a2: "- (2 ^ 63) \<le> (2 ^ 53 + 1 :: int) \<and> (2 ^ 53 + 1 :: int) < 2 ^ 64 \<longrightarrow>
           safe_float (NpInteger (2 ^ 53 + 1))
           = PyFloat (Fin (real_of_int (round_int53 (2 ^ 53 + 1))))
           \<and> \<bar>round_int53 (2 ^ 53 + 1) - (2 ^ 53 + 1)\<bar> \<le> 1024"
    using safe_float_rules by blast
  have b: "(\<forall>ys. PyList [] \<noteq> NdArray ys) \<and> py_float (np_item (PyList [])) = None \<longrightarrow>
           safe_float (PyList []) = PyNone"
    using safe_float_rules by blast
  have c: "nd_size (NdArray [NdArray [NpFloating (Fin 2)]]) = 1 \<longrightarrow>
           safe_float (NdArray [NdArray [NpFloating (Fin 2)]])
           = safe_float (hd (nd_flat (NdArray [NdArray [NpFloating (Fin 2)]])))"
    using safe_float_rules by blast
  have d: "1 < nd_size (NdArray [NpFloating (Fin 1), NpFloating NaN]) \<longrightarrow>
           safe_float (NdArray [NpFloating (Fin 1), NpFloating NaN])
           = PyList (map safe_float [NpFloating (Fin 1), NpFloating NaN])"
    using safe_float_rules by blast
  from a have a': "safe_float (NpInteger 3) = PyFloat (Fin 3)" by simp
  have range: "- (2 ^ 63) \<le> (2 ^ 53 + 1 :: int) \<and> (2 ^ 53 + 1 :: int) < 2 ^ 64" by simp
  from a2 range have "safe_float (NpInteger (2 ^ 53 + 1))
           = PyFloat (Fin (real_of_int (round_int53 (2 ^ 53 + 1))))" by blast
  then have a2': "safe_float (NpInteger (2 ^ 53 + 1)) = PyFloat (Fin (2 ^ 53))"
    by (simp only: big_example) simp
  from b have b': "safe_float (PyList []) = PyNone" by simp
  from c have c': "safe_float (NdArray [NdArray [NpFloating (Fin 2)]])
                   = safe_float (NpFloating (Fin 2))"
    by (simp add: nd_size_def)
  from d have d': "safe_float (NdArray [NpFloating (Fin 1), NpFloating NaN])
                   = PyList [safe_float (NpFloating (Fin 1)), safe_float (NpFloating NaN)]"
    by (simp add: nd_size_def)
  show ?thesis using a' a2' b' c' d' by blast
qed

text \<open>
  The claim as stated, a native float equal to the scalar, fails on the 64-bit integer
  \<open>2 ^ 53 + 1\<close>: the result is the float \<open>2 ^ 53\<close>.
\<close>

theorem safe_float_rules_counterexample:
  "safe_float (NpInteger (2 ^ 53 + 1)) = PyFloat (Fin (2 ^ 53))
   \<and> safe_float (NpInteger (2 ^ 53 + 1)) \<noteq> PyFloat (Fin (real_of_int (2 ^ 53 + 1)))"
proof -
  have range: "- (2 ^ 63) \<le> (2 ^ 53 + 1 :: int) \<and> (2 ^ 53 + 1 :: int) < 2 ^ 64" by simp
  have "safe_float (NpInteger (2 ^ 53 + 1))
        = PyFloat (Fin (real_of_int (round_int53 (2 ^ 53 + 1))))"
    using range by (rule safe_float_int64)
  then have "safe_float (NpInteger (2 ^ 53 + 1)) = PyFloat (Fin (2 ^ 53))"
    by (simp only: big_example) simp
  then show ?thesis by simp
qed

text \<open>
  Claim C10, as amended. On an array with no element \<open>safe_float\<close> returns a list, never
  \<open>None\<close> and never a number: the list of its results on the entries along the first
  axis. That list holds nothing but lists at any depth, and it is the empty list exactly
  when the first axis is empty.
\<close>

theorem safe_float_empty_array:
  "nd_size (NdArray xs) = 0 \<Longrightarrow>
     safe_float (NdArray xs) = PyList (map safe_float xs)
     \<and> nested_empty (safe_float (NdArray xs))
     \<and> (safe_float (NdArray xs) = PyList [] \<longleftrightarrow> xs = [])"
  using safe_float_empty_nested [of "NdArray xs"] by auto

theorem safe_float_empty_array_witness:
  "nd_size (NdArray [NdArray []]) = 0
   \<and> safe_float (NdArray [NdArray []]) = PyList [PyList []]"
  using safe_float_empty_array [of "[NdArray []]"] by (simp add: nd_size_def)

text \<open>
  The claim as stated fails on an array of shape \<open>(2, 0)\<close>: it has no element, and the
  result is a list of two empty lists.
\<close>

theorem safe_float_empty_array_counterexample:
  "nd_size (NdArray [NdArray [], NdArray []]) = 0
   \<and> safe_float (NdArray [NdArray [], NdArray []]) = PyList [PyList [], PyList []]
   \<and> safe_float (NdArray [NdArray [], NdArray []]) \<noteq> PyList []"
  by (simp add: nd_size_def)

section \<open>The result of \<open>compute_uplift_summary\<close>\<close>

lemma uplift_se_no_raise: "\<exists>se. uplift_se tv cv tn cn = Inr se"
proof -
  obtain s where
    "py_sqrt (py_max0 (fadd (fdiv tv (Fin (real tn))) (fdiv cv (Fin (real cn))))) = Inr s"
    using py_sqrt_max0 by blast
  then show ?thesis by (simp add: uplift_se_def Let_def)
qed

lemma summary_not_present:
  "\<not> present_condition df t y \<Longrightarrow>
     compute_uplift_summary df t y = Inr None \<or> (\<exists>e. compute_uplift_summary df t y = Inl e)"
  by (auto simp: present_condition_def compute_uplift_summary_def Let_def treated_rows_def
      split: sum.splits)

lemma summary_present:
  assumes "present_condition df t y"
  obtains se where
    "raw_se df t y = Inr se"
    "compute_uplift_summary df t y = Inr (Some \<lparr>
       treatment_mean = safe_float (NpFloating (series_mean (treated_outcomes df t y))),
       control_mean = safe_float (NpFloating (series_mean (control_outcomes df t y))),
       absolute_uplift = safe_float (NpFloating (raw_uplift df t y)),
       relative_uplift_pct = safe_float (np_float_or_none
          (uplift_relative (raw_uplift df t y) (series_mean (control_outcomes df t y)))),
       treatment_count = PyInt (int (length (treated_outcomes df t y))),
       control_count = PyInt (int (length (control_outcomes df t y))),
       standard_error = safe_float (py_float_or_none se),
       approximate_confidence_interval =
         (case uplift_ci (raw_uplift df t y) se of
            None \<Rightarrow> PyNone
          | Some ci \<Rightarrow> PyList (map (\<lambda>x. safe_float (NpFloating x)) ci)) \<rparr>)"
proof -
  obtain se where se: "raw_se df t y = Inr se"
    using uplift_se_no_raise unfolding raw_se_def by blast
  show thesis
    by (rule that [OF se])
      (use assms se in \<open>auto simp: present_condition_def compute_uplift_summary_def Let_def
          raw_se_def raw_uplift_def treated_outcomes_def control_outcomes_def coerced_data_def
          treated_rows_def split: sum.splits\<close>)
qed

lemma summary_returned: 
  "present_condition df t y \<Longrightarrow> \<exists>s. compute_uplift_summary df t y = Inr (Some s)"
  using summary_present by metis

lemma summary_SomeD:
  assumes "compute_uplift_summary df t y = Inr (Some s)"
  shows "present_condition df t y"
  using assms summary_not_present by fastforce

lemma summary_fields:
  assumes "compute_uplift_summary df t y = Inr (Some s)"
  obtains se where
    "raw_se df t y = Inr se"
    "treatment_mean s = safe_float (NpFloating (series_mean (treated_outcomes df t y)))"
    "control_mean s = safe_float (NpFloating (series_mean (control_outcomes df t y)))"
    "absolute_uplift s = safe_float (NpFloating (raw_uplift df t y))"
    "relative_uplift_pct s = safe_float (np_float_or_none
          (uplift_relative (raw_uplift df t y) (series_mean (control_outcomes df t y))))"
    "treatment_count s = PyInt (int (length (treated_outcomes df t y)))"
    "control_count s = PyInt (int (length (control_outcomes df t y)))"
    "standard_error s = safe_float (py_float_or_none se)"
    "approximate_confidence_interval s =
         (case uplift_ci (raw_uplift df t y) se of
            None \<Rightarrow> PyNone
          | Some ci \<Rightarrow> PyList (map (\<lambda>x. safe_float (NpFloating x)) ci))"
proof -
  have "present_condition df t y"
    using assms by (rule summary_SomeD)
  then obtain se where se: "raw_se df t y = Inr se" and
    "compute_uplift_summary df t y = Inr (Some \<lparr>
       treatment_mean = safe_float (NpFloating (series_mean (treated_outcomes df t y))),
       control_mean = safe_float (NpFloating (series_mean (control_outcomes df t y))),
       absolute_uplift = safe_float (NpFloating (raw_uplift df t y)),
       relative_uplift_pct = safe_float (np_float_or_none
          (uplift_relative (raw_uplift df t y) (series_mean (control_outcomes df t y)))),
       treatment_count = PyInt (int (length (treated_outcomes df t y))),
       control_count = PyInt (int (length (control_outcomes df t y))),
       standard_error = safe_float (py_float_or_none se),
       approximate_confidence_interval =
         (case uplift_ci (raw_uplift df t y) se of
            None \<Rightarrow> PyNone
          | Some ci \<Rightarrow> PyList (map (\<lambda>x. safe_float (NpFloating x)) ci)) \<rparr>)"
    by (rule summary_present)
  with assms have s: "s = \<lparr>
       treatment_mean = safe_float (NpFloating (series_mean (treated_outcomes df t y))),
       control_mean = safe_float (NpFloating (series_mean (control_outcomes df t y))),
       absolute_uplift = safe_float (NpFloating (raw_uplift df t y)),
       relative_uplift_pct = safe_float (np_float_or_none
          (uplift_relative (raw_uplift df t y) (series_mean (control_outcomes df t y)))),
       treatment_count = PyInt (int (length (treated_outcomes df t y))),
       control_count = PyInt (int (length (control_outcomes df t y))),
       standard_error = safe_float (py_float_or_none se),
       approximate_confidence_interval =
         (case uplift_ci (raw_uplift df t y) se of
            None \<Rightarrow> PyNone
          | Some ci \<Rightarrow> PyList (map (\<lambda>x. safe_float (NpFloating x)) ci)) \<rparr>"
    by simp
  show thesis
    by (rule that [OF se]) (simp_all add: s)
qed

subsection \<open>The four-row example, evaluated\<close>

lemma example_columns: "columns df_example = [''treatment'', ''outcome'']"
  by (simp add: df_example_def)

lemma example_data:
  "uplift_data df_example ''treatment'' ''outcome''
   = Inr [(Fin 1, Fin 10), (Fin 1, Fin 20), (Fin 0, Fin 5), (Fin 0, Fin 7)]"
  by (simp add: uplift_data_def numeric_column_def df_example_def row2_def dropna_def isnan_def to_double_small)

lemma example_present: "present_condition df_example ''treatment'' ''outcome''"
  by (simp add: present_condition_def example_columns example_data treated_rows_def
      control_rows_def fge_def)

lemma example_returns:
  "\<exists>s. compute_uplift_summary df_example ''treatment'' ''outcome'' = Inr (Some s)"
  using example_present by (rule summary_returned)

lemma example_treated: "treated_outcomes df_example ''treatment'' ''outcome'' = [Fin 10, Fin 20]"
  by (simp add: treated_outcomes_def coerced_data_def example_data treated_rows_def fge_def)

lemma example_control: "control_outcomes df_example ''treatment'' ''outcome'' = [Fin 5, Fin 7]"
  by (simp add: control_outcomes_def coerced_data_def example_data control_rows_def fge_def)

lemma example_treated_mean: "series_mean [Fin 10, Fin 20] = Fin 15"
  by (simp add: series_mean_def fsum_def to_double_small)

lemma example_control_mean: "series_mean [Fin 5, Fin 7] = Fin 6"
  by (simp add: series_mean_def fsum_def to_double_small)

lemma example_treated_var: "series_var [Fin 10, Fin 20] = Fin 50"
  by (simp add: series_var_def series_mean_def fsum_def sq_dev_def fsub_def to_double_small)

lemma example_control_var: "series_var [Fin 5, Fin 7] = Fin 2"
  by (simp add: series_var_def series_mean_def fsum_def sq_dev_def fsub_def to_double_small)

lemma example_se:
  "uplift_se (Fin 50) (Fin 2) (Suc (Suc 0)) (Suc (Suc 0)) = Inr (Some (Fin (sqrt 26)))"
  by (simp add: uplift_se_def py_max0_def fgt_def isnan_def to_double_small)

lemma example_radicand: "se_radicand df_example ''treatment'' ''outcome'' = Fin 26"
  by (simp add: se_radicand_def example_treated example_control example_treated_var
      example_control_var to_double_small py_max0_def fgt_def)

lemma example_raw_se: "raw_se df_example ''treatment'' ''outcome'' = Inr (Some (Fin (sqrt 26)))"
  by (simp add: raw_se_def example_treated example_control example_treated_var
      example_control_var example_se)

lemma example_uplift: "raw_uplift df_example ''treatment'' ''outcome'' = Fin 9"
  by (simp add: raw_uplift_def example_treated example_control example_treated_mean
      example_control_mean fsub_def to_double_small)

lemma example_means:
  "\<exists>s. compute_uplift_summary df_example ''treatment'' ''outcome'' = Inr (Some s)
     \<and> control_mean s = PyFloat (Fin 6) \<and> absolute_uplift s = PyFloat (Fin 9)"
proof -
  obtain s where
    s: "compute_uplift_summary df_example ''treatment'' ''outcome'' = Inr (Some s)"
    using example_returns by blast
  obtain se where
    "raw_se df_example ''treatment'' ''outcome'' = Inr se"
    "control_mean s = safe_float (NpFloating (series_mean
        (control_outcomes df_example ''treatment'' ''outcome'')))"
    "absolute_uplift s = safe_float (NpFloating (raw_uplift df_example ''treatment'' ''outcome''))"
    using s by (rule summary_fields)
  then have "control_mean s = PyFloat (Fin 6) \<and> absolute_uplift s = PyFloat (Fin 9)"
    by (simp add: example_control example_control_mean example_uplift sanitize_float)
  then show ?thesis using s by blast
qed

text \<open>
  Claim C7. On the dataset with the rows (1, 10), (1, 20), (0, 5), (0, 7) the function
  returns a summary with treatment mean 15, control mean 6, absolute uplift 9, relative
  uplift 150 percent and two rows in each partition.
\<close>

theorem example_summary:
  "\<exists>s. compute_uplift_summary df_example ''treatment'' ''outcome'' = Inr (Some s)
     \<and> treatment_mean s = PyFloat (Fin 15) \<and> control_mean s = PyFloat (Fin 6)
     \<and> absolute_uplift s = PyFloat (Fin 9) \<and> relative_uplift_pct s = PyFloat (Fin 150)
     \<and> treatment_count s = PyInt 2 \<and> control_count s = PyInt 2"
proof -
  obtain s where
    s: "compute_uplift_summary df_example ''treatment'' ''outcome'' = Inr (Some s)"
    using example_returns by blast
  obtain se where
    "raw_se df_example ''treatment'' ''outcome'' = Inr se"
    "treatment_mean s = safe_float (NpFloating (series_mean
        (treated_outcomes df_example ''treatment'' ''outcome'')))"
    "control_mean s = safe_float (NpFloating (series_mean
        (control_outcomes df_example ''treatment'' ''outcome'')))"
    "absolute_uplift s = safe_float (NpFloating (raw_uplift df_example ''treatment'' ''outcome''))"
    "relative_uplift_pct s = safe_float (np_float_or_none
        (uplift_relative (raw_uplift df_example ''treatment'' ''outcome'')
           (series_mean (control_outcomes df_example ''treatment'' ''outcome''))))"
    "treatment_count s = PyInt (int (length (treated_outcomes df_example ''treatment'' ''outcome'')))"
    "control_count s = PyInt (int (length (control_outcomes df_example ''treatment'' ''outcome'')))"
    using s by (rule summary_fields)
  then have "treatment_mean s = PyFloat (Fin 15) \<and> control_mean s = PyFloat (Fin 6)
     \<and> absolute_uplift s = PyFloat (Fin 9) \<and> relative_uplift_pct s = PyFloat (Fin 150)
     \<and> treatment_count s = PyInt 2 \<and> control_count s = PyInt 2"
    by (simp add: example_treated example_control example_treated_mean example_control_mean
        example_uplift uplift_relative_def np_float_or_none_def sanitize_float to_double_small)
  then show ?thesis using s by blast
qed

theorem example_summary_witness:
  "summary_field treatment_mean
     (compute_uplift_summary df_example ''treatment'' ''outcome'') = Some (PyFloat (Fin 15))
   \<and> summary_field control_mean
     (compute_uplift_summary df_example ''treatment'' ''outcome'') = Some (PyFloat (Fin 6))
   \<and> summary_field absolute_uplift
     (compute_uplift_summary df_example ''treatment'' ''outcome'') = Some (PyFloat (Fin 9))
   \<and> summary_field relative_uplift_pct
     (compute_uplift_summary df_example ''treatment'' ''outcome'') = Some (PyFloat (Fin 150))
   \<and> summary_field treatment_count
     (compute_uplift_summary df_example ''treatment'' ''outcome'') = Some (PyInt 2)
   \<and> summary_field control_count
     (compute_uplift_summary df_example ''treatment'' ''outcome'') = Some (PyInt 2)"
  using example_summary by (auto simp: summary_field_def)

subsection \<open>Sanitised fields\<close>

lemma finite_or_null_np_opt: "finite_or_null (safe_float (np_float_or_none x))"
  by (cases x) (simp_all add: np_float_or_none_def finite_or_null_float_or_none)

lemma finite_or_null_py_opt: "finite_or_null (safe_float (py_float_or_none x))"
  by (cases x) (simp_all add: py_float_or_none_def finite_or_null_float_or_none)

lemma uplift_ci_length: "uplift_ci au se = Some ci \<Longrightarrow> length ci = 2"
  by (auto simp: uplift_ci_def Let_def split: option.splits if_splits)

lemma interval_sanitised:
  "interval_finite_or_null (case uplift_ci au se of None \<Rightarrow> PyNone
      | Some ci \<Rightarrow> PyList (map (\<lambda>x. safe_float (NpFloating x)) ci))"
  by (auto simp: interval_finite_or_null_def uplift_ci_length list_all_iff
      finite_or_null_float_or_none split: option.splits)

text \<open>
  Claim C1. Whenever \<open>compute_uplift_summary\<close> returns a summary, its two means, its
  absolute and relative uplift and its standard error are each \<open>None\<close> or a finite
  native float, its confidence interval is \<open>None\<close> or a list of two such values, and
  its two counts are native integers.
\<close>

theorem summary_fields_sanitised:
  assumes "compute_uplift_summary df treatment outcome = Inr (Some s)"
  shows "finite_or_null (treatment_mean s) \<and> finite_or_null (control_mean s)
       \<and> finite_or_null (absolute_uplift s) \<and> finite_or_null (relative_uplift_pct s)
       \<and> finite_or_null (standard_error s)
       \<and> interval_finite_or_null (approximate_confidence_interval s)
       \<and> is_native_int (treatment_count s) \<and> is_native_int (control_count s)"
proof -
  obtain se where
    "raw_se df treatment outcome = Inr se"
    "treatment_mean s = safe_float (NpFloating (series_mean (treated_outcomes df treatment outcome)))"
    "control_mean s = safe_float (NpFloating (series_mean (control_outcomes df treatment outcome)))"
    "absolute_uplift s = safe_float (NpFloating (raw_uplift df treatment outcome))"
    "relative_uplift_pct s = safe_float (np_float_or_none
          (uplift_relative (raw_uplift df treatment outcome)
             (series_mean (control_outcomes df treatment outcome))))"
    "treatment_count s = PyInt (int (length (treated_outcomes df treatment outcome)))"
    "control_count s = PyInt (int (length (control_outcomes df treatment outcome)))"
    "standard_error s = safe_float (py_float_or_none se)"
    "approximate_confidence_interval s =
         (case uplift_ci (raw_uplift df treatment outcome) se of
            None \<Rightarrow> PyNone
          | Some ci \<Rightarrow> PyList (map (\<lambda>x. safe_float (NpFloating x)) ci))"
    using assms by (rule summary_fields)
  then show ?thesis
    by (simp add: finite_or_null_float_or_none finite_or_null_np_opt finite_or_null_py_opt
        interval_sanitised)
qed

theorem summary_fields_sanitised_witness:
  "\<exists>s. compute_uplift_summary df_example ''treatment'' ''outcome'' = Inr (Some s)
     \<and> finite_or_null (treatment_mean s) \<and> finite_or_null (control_mean s)
     \<and> finite_or_null (absolute_uplift s) \<and> finite_or_null (relative_uplift_pct s)
     \<and> finite_or_null (standard_error s)
     \<and> interval_finite_or_null (approximate_confidence_interval s)
     \<and> is_native_int (treatment_count s) \<and> is_native_int (control_count s)"
proof -
  obtain s where s: "compute_uplift_summary df_example ''treatment'' ''outcome'' = Inr (Some s)"
    using example_returns by blast
  show ?thesis using s summary_fields_sanitised [OF s] by blast
qed

subsection \<open>Presence and absence of the summary\<close>


lemma summary_raises:
  assumes "t \<in> set (columns df)" "y \<in> set (columns df)" "coercion_raises df t y"
  shows "\<exists>e. compute_uplift_summary df t y = Inl e"
proof -
  obtain e where "uplift_data df t y = Inl e"
    using uplift_data_raises [OF assms(3)] by blast
  then show ?thesis using assms(1,2) by (simp add: compute_uplift_summary_def)
qed


lemma duplicate_raises:
  "compute_uplift_summary df_duplicate ''treatment'' ''outcome'' = Inl TypeError"
  by (simp add: compute_uplift_summary_def uplift_data_def numeric_column_def df_duplicate_def)





subsection \<open>The counts\<close>

lemma partition_split: "t \<noteq> NaN \<Longrightarrow> flt t (Fin h) \<longleftrightarrow> \<not> fge t (Fin h)"
  by (cases t) (auto simp: fge_def)

lemma dropna_no_nan: "(t, y) \<in> set (dropna xs) \<Longrightarrow> t \<noteq> NaN"
  by (auto simp: dropna_def isnan_def)

lemma partition_lengths:
  "length (treated_rows (dropna xs)) + length (control_rows (dropna xs)) = length (dropna xs)"
proof -
  have "control_rows (dropna xs)
        = filter (\<lambda>p. \<not> (case p of (t, y) \<Rightarrow> fge t (Fin (1 / 2)))) (dropna xs)"
    unfolding control_rows_def
    by (rule filter_cong) (auto simp: partition_split dest: dropna_no_nan)
  then show ?thesis
    unfolding treated_rows_def by (simp add: sum_length_filter_compl)
qed

lemma coerced_data_length:
  assumes "uplift_data df t y = Inr data"
  shows "length data = length (coercible_rows df t y)"
proof -
  have "\<not> coercion_raises df t y" using assms by (rule uplift_data_Inr_no_raise)
  then show ?thesis using uplift_data_ok assms by fastforce
qed

lemma uplift_data_dropna: "uplift_data df t y = Inr data \<Longrightarrow> \<exists>xs. data = dropna xs"
  by (auto simp: uplift_data_def split: sum.splits)

text \<open>
  Claim C9. In a returned summary both counts are at least one, and they add up to the
  number of rows whose treatment and outcome cells both coerce to a number; no other
  column is looked at.
\<close>

theorem summary_counts:
  assumes "compute_uplift_summary df treatment outcome = Inr (Some s)"
  shows "\<exists>a b. treatment_count s = PyInt a \<and> control_count s = PyInt b
           \<and> 1 \<le> a \<and> 1 \<le> b
           \<and> a + b = int (length (coercible_rows df treatment outcome))"
proof -
  have present: "present_condition df treatment outcome"
    using assms by (rule summary_SomeD)
  then obtain data where data: "uplift_data df treatment outcome = Inr data"
    and ne: "treated_rows data \<noteq> []" "control_rows data \<noteq> []"
    by (auto simp: present_condition_def split: sum.splits)
  have cd: "coerced_data df treatment outcome = data"
    using data by (simp add: coerced_data_def)
  obtain se where
    "raw_se df treatment outcome = Inr se" and
    tc: "treatment_count s = PyInt (int (length (treated_outcomes df treatment outcome)))" and
    cc: "control_count s = PyInt (int (length (control_outcomes df treatment outcome)))"
    using assms by (rule summary_fields)
  have t1: "1 \<le> length (treated_outcomes df treatment outcome)"
    using ne(1) by (cases "treated_rows data") (simp_all add: treated_outcomes_def cd)
  have c1: "1 \<le> length (control_outcomes df treatment outcome)"
    using ne(2) by (cases "control_rows data") (simp_all add: control_outcomes_def cd)
  obtain xs where xs: "data = dropna xs"
    using uplift_data_dropna [OF data] by blast
  have "length (treated_outcomes df treatment outcome)
        + length (control_outcomes df treatment outcome)
        = length data"
    using partition_lengths [of xs]
    by (simp add: treated_outcomes_def control_outcomes_def cd xs)
  then have sum: "int (length (treated_outcomes df treatment outcome))
        + int (length (control_outcomes df treatment outcome))
        = int (length (coercible_rows df treatment outcome))"
    by (simp add: coerced_data_length [OF data] flip: of_nat_add)
  show ?thesis using tc cc t1 c1 sum by auto
qed

theorem summary_counts_witness:
  "\<exists>s a b. compute_uplift_summary df_example ''treatment'' ''outcome'' = Inr (Some s)
     \<and> treatment_count s = PyInt a \<and> control_count s = PyInt b \<and> 1 \<le> a \<and> 1 \<le> b
     \<and> a + b = int (length (coercible_rows df_example ''treatment'' ''outcome''))"
proof -
  obtain s where s: "compute_uplift_summary df_example ''treatment'' ''outcome'' = Inr (Some s)"
    using example_returns by blast
  show ?thesis using s summary_counts [OF s] by blast
qed

subsection \<open>The standard error\<close>

lemma huge_small: "\<bar>huge\<bar> \<le> 2 ^ 1023" "\<bar>- huge\<bar> \<le> 2 ^ 1023"
  by (simp_all add: huge_def)

lemma huge_square: "2 ^ 1024 \<le> huge * huge"
  by (simp add: huge_def)

lemma overflow_columns: "columns df_overflow = [''treatment'', ''outcome'']"
  by (simp add: df_overflow_def)

lemma overflow_data:
  "uplift_data df_overflow ''treatment'' ''outcome''
   = Inr [(Fin 1, Fin huge), (Fin 1, Fin (- huge)), (Fin 0, Fin 0), (Fin 0, Fin 1)]"
  using huge_small
  by (simp add: uplift_data_def numeric_column_def df_overflow_def row2_def dropna_def isnan_def to_double_small)

lemma overflow_treated:
  "treated_outcomes df_overflow ''treatment'' ''outcome'' = [Fin huge, Fin (- huge)]"
  by (simp add: treated_outcomes_def coerced_data_def overflow_data treated_rows_def fge_def)

lemma overflow_control: "control_outcomes df_overflow ''treatment'' ''outcome'' = [Fin 0, Fin 1]"
  by (simp add: control_outcomes_def coerced_data_def overflow_data control_rows_def fge_def)

lemma overflow_treated_mean: "series_mean [Fin huge, Fin (- huge)] = Fin 0"
  using huge_small by (simp add: series_mean_def fsum_def to_double_small)

lemma overflow_treated_var: "series_var [Fin huge, Fin (- huge)] = PInf"
  using huge_small huge_square
  by (simp add: series_var_def overflow_treated_mean fsum_def sq_dev_def fsub_def
      to_double_small to_double_big inf_of_sign_def)

lemma overflow_control_mean: "series_mean [Fin 0, Fin 1] = Fin (1 / 2)"
  by (simp add: series_mean_def fsum_def to_double_small)

lemma overflow_control_var: "series_var [Fin 0, Fin 1] = Fin (1 / 2)"
  by (simp add: series_var_def overflow_control_mean fsum_def sq_dev_def fsub_def
      to_double_small)

lemma overflow_radicand: "se_radicand df_overflow ''treatment'' ''outcome'' = PInf"
  by (simp add: se_radicand_def overflow_treated overflow_control overflow_treated_var
      overflow_control_var inf_of_sign_def to_double_small py_max0_def fgt_def)

lemma overflow_present: "present_condition df_overflow ''treatment'' ''outcome''"
  by (simp add: present_condition_def overflow_columns overflow_data treated_rows_def
      control_rows_def fge_def)

lemma overflow_se: "raw_se df_overflow ''treatment'' ''outcome'' = Inr (Some PInf)"
  using overflow_radicand
  by (simp add: raw_se_def uplift_se_def se_radicand_def Let_def overflow_treated
      overflow_control isnan_def)

lemma overflow_uplift: "raw_uplift df_overflow ''treatment'' ''outcome'' = Fin (- (1 / 2))"
  by (simp add: raw_uplift_def overflow_treated overflow_control overflow_treated_mean
      overflow_control_mean fsub_def to_double_small)

lemma large_bounds:
  "\<bar>large\<bar> \<le> 2 ^ 1023" "\<bar>large - 1\<bar> \<le> 2 ^ 1023" "2 ^ 1024 \<le> (large - 1) * 100"
  by (simp_all add: large_def)

lemma large_columns: "columns df_large = [''treatment'', ''outcome'']"
  by (simp add: df_large_def)

lemma large_data:
  "uplift_data df_large ''treatment'' ''outcome'' = Inr [(Fin 1, Fin large), (Fin 0, Fin 1)]"
  using large_bounds
  by (simp add: uplift_data_def numeric_column_def df_large_def row2_def dropna_def isnan_def to_double_small)

lemma large_treated: "treated_outcomes df_large ''treatment'' ''outcome'' = [Fin large]"
  by (simp add: treated_outcomes_def coerced_data_def large_data treated_rows_def fge_def)

lemma large_control: "control_outcomes df_large ''treatment'' ''outcome'' = [Fin 1]"
  by (simp add: control_outcomes_def coerced_data_def large_data control_rows_def fge_def)

lemma large_present: "present_condition df_large ''treatment'' ''outcome''"
  by (simp add: present_condition_def large_columns large_data treated_rows_def
      control_rows_def fge_def)

lemma large_means: "series_mean [Fin large] = Fin large" "series_mean [Fin 1] = Fin 1"
  using large_bounds by (simp_all add: series_mean_def fsum_def to_double_small)

lemma large_uplift: "raw_uplift df_large ''treatment'' ''outcome'' = Fin (large - 1)"
  using large_bounds
  by (simp add: raw_uplift_def large_treated large_control large_means fsub_def to_double_small)

text \<open>
  Claim C4, as amended. In a returned summary whose partitions have at least two rows
  each, \<open>standard_error\<close> is the square root of
  \<open>max(var_treated / n_treated + var_control / n_control, 0)\<close>, with the sample variances
  of the two partitions, when that value is finite, and \<open>None\<close> when it is NaN or
  infinite. When either partition has fewer than two rows it is \<open>None\<close>.
\<close>

theorem standard_error_value:
  assumes "compute_uplift_summary df treatment outcome = Inr (Some s)"
  shows "(2 \<le> length (treated_outcomes df treatment outcome)
          \<and> 2 \<le> length (control_outcomes df treatment outcome) \<longrightarrow>
            standard_error s = (case se_radicand df treatment outcome of
                                  Fin v \<Rightarrow> PyFloat (Fin (sqrt v))
                                | _ \<Rightarrow> PyNone))
       \<and> (length (treated_outcomes df treatment outcome) < 2
          \<or> length (control_outcomes df treatment outcome) < 2 \<longrightarrow>
            standard_error s = PyNone)"
proof -
  obtain se where
    se: "raw_se df treatment outcome = Inr se" and
    st: "standard_error s = safe_float (py_float_or_none se)"
    using assms by (rule summary_fields)
  have few: "standard_error s = PyNone"
    if "length (treated_outcomes df treatment outcome) < 2
        \<or> length (control_outcomes df treatment outcome) < 2"
  proof -
    have "se = None" using se that by (auto simp: raw_se_def uplift_se_def)
    then show ?thesis using st by (simp add: py_float_or_none_def float_or_none_def)
  qed
  have many: "standard_error s = (case se_radicand df treatment outcome of
                                  Fin v \<Rightarrow> PyFloat (Fin (sqrt v)) | _ \<Rightarrow> PyNone)"
    if "2 \<le> length (treated_outcomes df treatment outcome)
        \<and> 2 \<le> length (control_outcomes df treatment outcome)"
  proof -
    have eq: "(if \<not> isnan (se_radicand df treatment outcome) then
                (case py_sqrt (se_radicand df treatment outcome) of
                   Inl e \<Rightarrow> Inl e | Inr x \<Rightarrow> Inr (Some x))
              else Inr None) = Inr se"
    proof -
      have gt: "1 < length (treated_outcomes df treatment outcome)
                \<and> 1 < length (control_outcomes df treatment outcome)"
        using that by linarith
      have "raw_se df treatment outcome
            = (if \<not> isnan (se_radicand df treatment outcome) then
                (case py_sqrt (se_radicand df treatment outcome) of
                   Inl e \<Rightarrow> Inl e | Inr x \<Rightarrow> Inr (Some x))
              else Inr None)"
        unfolding raw_se_def uplift_se_def se_radicand_def Let_def using gt by simp
      then show ?thesis using se by simp
    qed
    show ?thesis
    proof (cases "se_radicand df treatment outcome")
      case (Fin v)
      then have "se = Some (Fin (sqrt v))"
        using eq by (auto simp: isnan_def split: if_splits)
      then show ?thesis using st Fin
        by (simp add: py_float_or_none_def float_or_none_def isnan_def isinf_def)
    next
      case PInf
      then have "se = Some PInf" using eq by (auto simp: isnan_def)
      then show ?thesis using st PInf
        by (simp add: py_float_or_none_def float_or_none_def isnan_def isinf_def)
    next
      case NInf
      then show ?thesis using eq by (simp add: isnan_def)
    next
      case NaN
      then have "se = None" using eq by (auto simp: isnan_def)
      then show ?thesis using st NaN
        by (simp add: py_float_or_none_def float_or_none_def)
    qed
  qed
  show ?thesis using few many by blast
qed

theorem standard_error_value_witness:
  "(\<exists>s. compute_uplift_summary df_example ''treatment'' ''outcome'' = Inr (Some s)
     \<and> 2 \<le> length (treated_outcomes df_example ''treatment'' ''outcome'')
     \<and> 2 \<le> length (control_outcomes df_example ''treatment'' ''outcome'')
     \<and> standard_error s = PyFloat (Fin (sqrt 26)))
   \<and> (\<exists>s. compute_uplift_summary df_large ''treatment'' ''outcome'' = Inr (Some s)
     \<and> length (treated_outcomes df_large ''treatment'' ''outcome'') < 2
     \<and> standard_error s = PyNone)"
proof -
  obtain s where
    s: "compute_uplift_summary df_example ''treatment'' ''outcome'' = Inr (Some s)"
    using example_returns by blast
  have l: "2 \<le> length (treated_outcomes df_example ''treatment'' ''outcome'')
     \<and> 2 \<le> length (control_outcomes df_example ''treatment'' ''outcome'')"
    by (simp add: example_treated example_control)
  have "2 \<le> length (treated_outcomes df_example ''treatment'' ''outcome'')
          \<and> 2 \<le> length (control_outcomes df_example ''treatment'' ''outcome'') \<longrightarrow>
            standard_error s = (case se_radicand df_example ''treatment'' ''outcome'' of
                                  Fin v \<Rightarrow> PyFloat (Fin (sqrt v))
                                | _ \<Rightarrow> PyNone)"
    using standard_error_value [OF s] by blast
  then have first: "standard_error s = PyFloat (Fin (sqrt 26))"
    using l by (simp add: example_radicand)
  obtain s' where
    s': "compute_uplift_summary df_large ''treatment'' ''outcome'' = Inr (Some s')"
    using large_present summary_returned by blast
  have l': "length (treated_outcomes df_large ''treatment'' ''outcome'') < 2"
    by (simp add: large_treated)
  have "length (treated_outcomes df_large ''treatment'' ''outcome'') < 2
          \<or> length (control_outcomes df_large ''treatment'' ''outcome'') < 2 \<longrightarrow>
            standard_error s' = PyNone"
    using standard_error_value [OF s'] by blast
  then have second: "standard_error s' = PyNone" using l' by simp
  show ?thesis using s l first s' l' second by blast
qed

text \<open>
  The claim as stated fails on the dataset with the treated outcomes \<open>1e200\<close> and
  \<open>-1e200\<close> and the control outcomes 0 and 1. Both partitions have two rows and the
  value under the square root is not NaN but plus infinity, whose square root is plus
  infinity; the summary's \<open>standard_error\<close> is \<open>None\<close>.
\<close>

theorem standard_error_overflow_counterexample:
  "length (treated_outcomes df_overflow ''treatment'' ''outcome'') = 2
   \<and> length (control_outcomes df_overflow ''treatment'' ''outcome'') = 2
   \<and> se_radicand df_overflow ''treatment'' ''outcome'' = PInf
   \<and> summary_field standard_error
        (compute_uplift_summary df_overflow ''treatment'' ''outcome'') = Some PyNone"
proof -
  obtain s where
    s: "compute_uplift_summary df_overflow ''treatment'' ''outcome'' = Inr (Some s)"
    using summary_present [OF overflow_present] by metis
  obtain se where
    se: "raw_se df_overflow ''treatment'' ''outcome'' = Inr se" and
    st: "standard_error s = safe_float (py_float_or_none se)"
    using s by (rule summary_fields)
  have "se = Some PInf" using se by (simp add: overflow_se)
  then have "standard_error s = PyNone"
    using st by (simp add: py_float_or_none_def float_or_none_def isinf_def)
  then show ?thesis
    using s by (simp add: summary_field_def overflow_treated overflow_control overflow_radicand)
qed

subsection \<open>The approximate confidence interval\<close>

text \<open>
  When the summary's standard error is a positive number the interval is the pair
  \<open>absolute_uplift - 1.96 * se\<close>, \<open>absolute_uplift + 1.96 * se\<close> and brackets the
  uplift; when the standard error of line 64 is undefined or the summary's is zero the
  interval is \<open>None\<close>. A finite variance forces a finite mean, which keeps the uplift
  and both bounds inside the range of a double.
\<close>

lemma foldl_fadd_special:
  "acc = PInf \<or> acc = NaN \<Longrightarrow> \<forall>x \<in> set xs. x = PInf \<or> x = NaN \<Longrightarrow>
   foldl fadd acc xs = PInf \<or> foldl fadd acc xs = NaN"
proof (induction xs arbitrary: acc)
  case Nil
  then show ?case by simp
next
  case (Cons x xs)
  have "fadd acc x = PInf \<or> fadd acc x = NaN"
    using Cons.prems by auto
  then show ?case using Cons.IH [of "fadd acc x"] Cons.prems by simp
qed

lemma fsum_special:
  assumes "xs \<noteq> []" "\<forall>x \<in> set xs. x = PInf \<or> x = NaN"
  shows "fsum xs = PInf \<or> fsum xs = NaN"
proof (cases xs)
  case Nil
  then show ?thesis using assms by simp
next
  case (Cons x ys)
  have "fadd (Fin 0) x = PInf \<or> fadd (Fin 0) x = NaN" using assms Cons by auto
  then show ?thesis
    using foldl_fadd_special [of "fadd (Fin 0) x" ys] assms Cons by (simp add: fsum_def)
qed

lemma sq_dev_special: "(\<forall>m. avg \<noteq> Fin m) \<Longrightarrow> sq_dev avg x = PInf \<or> sq_dev avg x = NaN"
  by (cases avg; cases x) (simp_all add: sq_dev_def fsub_def)

lemma fsum_bounded: "fsum xs = Fin S \<Longrightarrow> \<bar>S\<bar> \<le> dbl_max"
proof (cases xs rule: rev_cases)
  case Nil
  assume "fsum xs = Fin S"
  then have "S = 0" using Nil by (simp add: fsum_def)
  then show ?thesis unfolding dbl_max_def by simp
next
  case (snoc ys y)
  assume "fsum xs = Fin S"
  then have "fadd (foldl fadd (Fin 0) ys) y = Fin S" using snoc by (simp add: fsum_def)
  then show ?thesis using fadd_Fin to_double_bounded by blast
qed

lemma series_var_Fin_mean:
  assumes "series_var xs = Fin v"
  shows "\<exists>m. series_mean xs = Fin m \<and> \<bar>m\<bar> \<le> dbl_max / 2"
proof -
  have len: "2 \<le> length xs" using assms by (auto simp: series_var_def split: if_splits)
  then have ne: "xs \<noteq> []" by auto
  have v: "fdiv (fsum (map (sq_dev (series_mean xs)) xs)) (Fin (real (length xs - 1))) = Fin v"
    using assms len by (simp add: series_var_def)
  have "\<exists>m. series_mean xs = Fin m"
  proof (rule ccontr)
    assume "\<not> (\<exists>m. series_mean xs = Fin m)"
    then have "\<forall>x \<in> set (map (sq_dev (series_mean xs)) xs). x = PInf \<or> x = NaN"
      using sq_dev_special by auto
    then have "fsum (map (sq_dev (series_mean xs)) xs) = PInf
               \<or> fsum (map (sq_dev (series_mean xs)) xs) = NaN"
      using fsum_special ne by simp
    then show False using v fdiv_Fin_left by fastforce
  qed
  then obtain m where m: "series_mean xs = Fin m" by blast
  then obtain S where S: "fsum xs = Fin S"
    unfolding series_mean_def using fdiv_Fin_left by blast
  have Sb: "\<bar>S\<bar> \<le> dbl_max" using S by (rule fsum_bounded)
  have n2: "2 \<le> real (length xs)" using len by simp
  have q: "\<bar>S / real (length xs)\<bar> \<le> dbl_max / 2"
  proof -
    have "\<bar>S / real (length xs)\<bar> = \<bar>S\<bar> / real (length xs)" by simp
    also have "\<dots> \<le> \<bar>S\<bar> / 2" using n2 by (intro divide_left_mono) (use ne in simp_all)
    also have "\<dots> \<le> dbl_max / 2" using Sb by simp
    finally show ?thesis .
  qed
  have "\<bar>S / real (length xs)\<bar> \<le> dbl_max" using q dbl_consts(1) by linarith
  then have "to_double (S / real (length xs)) = Fin (S / real (length xs))"
    by (rule to_double_in_range)
  then have "m = S / real (length xs)"
    using m S ne by (simp add: series_mean_def)
  then show ?thesis using m q by simp
qed

lemma se_sanitized_Fin: "safe_float (py_float_or_none se) = PyFloat (Fin e) \<Longrightarrow> se = Some (Fin e)"
  by (cases se; cases "the se")
    (simp_all add: py_float_or_none_def float_or_none_def isnan_def isinf_def)

lemma uplift_se_Fin_pos:
  assumes "uplift_se tv cv tn cn = Inr (Some (Fin e))" "0 < e"
  shows "\<exists>v x y. 0 < v \<and> v \<le> dbl_max \<and> e = sqrt v \<and> tv = Fin x \<and> cv = Fin y
           \<and> 1 < tn \<and> 1 < cn"
proof -
  define r where "r = py_max0 (fadd (fdiv tv (Fin (real tn))) (fdiv cv (Fin (real cn))))"
  have n: "1 < tn \<and> 1 < cn" using assms(1) by (auto simp: uplift_se_def split: if_splits)
  then have sq: "py_sqrt r = Inr (Fin e)"
    using assms(1) unfolding r_def
    by (auto simp: uplift_se_def Let_def split: if_splits sum.splits)
  then obtain v where v: "r = Fin v" "e = sqrt v" "0 \<le> v"
    by (cases r) (auto split: if_splits)
  have vpos: "0 < v" using v assms(2) by (cases "v = 0") auto
  have "fadd (fdiv tv (Fin (real tn))) (fdiv cv (Fin (real cn))) = Fin v"
    using v(1) vpos unfolding r_def by (rule py_max0_Fin_pos)
  then obtain x y where xy: "fdiv tv (Fin (real tn)) = Fin x" "fdiv cv (Fin (real cn)) = Fin y"
    "to_double (x + y) = Fin v"
    using fadd_Fin by blast
  have "\<bar>v\<bar> \<le> dbl_max" using xy(3) by (rule to_double_bounded)
  then have "v \<le> dbl_max" by simp
  moreover obtain x' y' where "tv = Fin x'" "cv = Fin y'"
    using xy fdiv_Fin_left by blast
  ultimately show ?thesis using vpos v(2) n by blast
qed

lemma interval_brackets_uplift:
  assumes s: "compute_uplift_summary df t y = Inr (Some s)"
    and e: "standard_error s = PyFloat (Fin e)" "0 < e"
  shows "\<exists>a lo hi. absolute_uplift s = PyFloat (Fin a)
           \<and> approximate_confidence_interval s = PyList [PyFloat (Fin lo), PyFloat (Fin hi)]
           \<and> fsub (Fin a) (fmul (Fin (196 / 100)) (Fin e)) = Fin lo
           \<and> fadd (Fin a) (fmul (Fin (196 / 100)) (Fin e)) = Fin hi
           \<and> lo \<le> a \<and> a \<le> hi"
proof -
  obtain se where
    se: "raw_se df t y = Inr se" and
    au: "absolute_uplift s = safe_float (NpFloating (raw_uplift df t y))" and
    st: "standard_error s = safe_float (py_float_or_none se)" and
    ci: "approximate_confidence_interval s =
         (case uplift_ci (raw_uplift df t y) se of
            None \<Rightarrow> PyNone
          | Some ci \<Rightarrow> PyList (map (\<lambda>x. safe_float (NpFloating x)) ci))"
    using s by (rule summary_fields)
  have sev: "se = Some (Fin e)" using st e(1) se_sanitized_Fin by simp
  then obtain v x z where v: "0 < v" "v \<le> dbl_max" "e = sqrt v"
    and tv: "series_var (treated_outcomes df t y) = Fin x"
    and cv: "series_var (control_outcomes df t y) = Fin z"
    using uplift_se_Fin_pos [of _ _ _ _ e] se e(2) unfolding raw_se_def by blast
  obtain mt where mt: "series_mean (treated_outcomes df t y) = Fin mt" "\<bar>mt\<bar> \<le> dbl_max / 2"
    using series_var_Fin_mean [OF tv] by blast
  obtain mc where mc: "series_mean (control_outcomes df t y) = Fin mc" "\<bar>mc\<bar> \<le> dbl_max / 2"
    using series_var_Fin_mean [OF cv] by blast
  define a where "a = mt - mc"
  have ab: "\<bar>a\<bar> \<le> dbl_max" using mt(2) mc(2) unfolding a_def by linarith
  have ra: "raw_uplift df t y = Fin a"
    using to_double_in_range [OF ab] by (simp add: raw_uplift_def mt mc fsub_def a_def)
  have e512: "e \<le> 2 ^ 512" using v sqrt_dbl_max [of v] by simp
  define w where "w = 196 / 100 * e"
  have wpos: "0 < w" using e(2) unfolding w_def by simp
  have w513: "w \<le> 2 ^ 513"
  proof -
    have "w \<le> 2 * e" using e(2) unfolding w_def by simp
    also have "\<dots> \<le> 2 * 2 ^ 512" using e512 by simp
    finally show ?thesis by simp
  qed
  have p: "(2::real) ^ 513 \<le> 2 ^ 1023" "(2::real) ^ 513 < 2 ^ 970" by simp_all
  have "\<bar>w\<bar> \<le> dbl_max" using wpos w513 p(1) dbl_consts(4) by linarith
  then have m: "fmul (Fin (196 / 100)) (Fin e) = Fin w"
    using to_double_in_range unfolding w_def by simp
  have ab': "- dbl_max \<le> a" "a \<le> dbl_max" using ab by (simp_all add: abs_le_iff)
  have lo_range: "- dbl_overflow < a - w"
    using ab' w513 p(2) dbl_consts(3) by linarith
  have hi_range: "a + w < dbl_overflow"
    using ab' w513 p(2) dbl_consts(3) by linarith
  obtain lo where lo: "to_double (a - w) = Fin lo" "lo \<le> a"
    using to_double_below [OF lo_range _ ab] wpos by auto
  obtain hi where hi: "to_double (a + w) = Fin hi" "a \<le> hi"
    using to_double_above [OF hi_range _ ab] wpos by auto
  have sub: "fsub (Fin a) (fmul (Fin (196 / 100)) (Fin e)) = Fin lo"
    unfolding m using lo(1) by (simp add: fsub_def)
  have add: "fadd (Fin a) (fmul (Fin (196 / 100)) (Fin e)) = Fin hi"
    unfolding m using hi(1) by simp
  have "uplift_ci (Fin a) (Some (Fin e)) = Some [Fin lo, Fin hi]"
    using e(2) by (simp only: uplift_ci_def option.case Let_def sub add) (simp add: fgt_def)
  then have "approximate_confidence_interval s = PyList [PyFloat (Fin lo), PyFloat (Fin hi)]"
    using ci by (simp add: ra sev sanitize_float)
  moreover have "absolute_uplift s = PyFloat (Fin a)"
    using au by (simp add: ra sanitize_float)
  ultimately show ?thesis using sub add lo(2) hi(2) by blast
qed

lemma interval_null:
  assumes s: "compute_uplift_summary df t y = Inr (Some s)"
    and e: "raw_se df t y = Inr None \<or> standard_error s = PyFloat (Fin 0)"
  shows "approximate_confidence_interval s = PyNone"
proof -
  obtain se where
    se: "raw_se df t y = Inr se" and
    st: "standard_error s = safe_float (py_float_or_none se)" and
    ci: "approximate_confidence_interval s =
         (case uplift_ci (raw_uplift df t y) se of
            None \<Rightarrow> PyNone
          | Some ci \<Rightarrow> PyList (map (\<lambda>x. safe_float (NpFloating x)) ci))"
    using s by (rule summary_fields)
  have "se = None \<or> se = Some (Fin 0)"
    using e se st se_sanitized_Fin by auto
  then show ?thesis using ci by (auto simp: uplift_ci_def fgt_def)
qed

text \<open>
  Claim C5. The claim requires the interval to be \<open>None\<close> whenever the summary's
  \<open>standard_error\<close> is \<open>None\<close>. On the dataset with the treated outcomes \<open>1e200\<close> and
  \<open>-1e200\<close> the standard error computed on line 64 is plus infinity, which passes the
  test \<open>se > 0\<close> of line 67: the summary has \<open>standard_error\<close> \<open>None\<close> and an interval
  that is a list of two \<open>None\<close>.
\<close>

theorem interval_of_nulls:
  "summary_field standard_error
     (compute_uplift_summary df_overflow ''treatment'' ''outcome'') = Some PyNone
   \<and> summary_field approximate_confidence_interval
     (compute_uplift_summary df_overflow ''treatment'' ''outcome'')
     = Some (PyList [PyNone, PyNone])"
proof -
  obtain s where
    s: "compute_uplift_summary df_overflow ''treatment'' ''outcome'' = Inr (Some s)"
    using summary_present [OF overflow_present] by metis
  obtain se where
    se: "raw_se df_overflow ''treatment'' ''outcome'' = Inr se" and
    st: "standard_error s = safe_float (py_float_or_none se)" and
    ci: "approximate_confidence_interval s =
         (case uplift_ci (raw_uplift df_overflow ''treatment'' ''outcome'') se of
            None \<Rightarrow> PyNone
          | Some ci \<Rightarrow> PyList (map (\<lambda>x. safe_float (NpFloating x)) ci))"
    using s by (rule summary_fields)
  have "se = Some PInf" using se by (simp add: overflow_se)
  then have "standard_error s = PyNone
             \<and> approximate_confidence_interval s = PyList [PyNone, PyNone]"
    using st ci
    by (simp add: overflow_uplift py_float_or_none_def float_or_none_def isinf_def
        isnan_def uplift_ci_def fgt_def fsub_def inf_of_sign_def)
  then show ?thesis
    using s by (simp add: summary_field_def)
qed

theorem interval_of_nulls_witness:
  "summary_field approximate_confidence_interval
     (compute_uplift_summary df_overflow ''treatment'' ''outcome'') \<noteq> Some PyNone
   \<and> summary_field standard_error
     (compute_uplift_summary df_overflow ''treatment'' ''outcome'') = Some PyNone"
  using interval_of_nulls by simp

subsection \<open>The relative uplift\<close>

lemma sanitize_relative:
  "safe_float (np_float_or_none (uplift_relative au cm))
   = (if cm = Fin 0 then PyNone
      else case fmul (fdiv au cm) (Fin 100) of Fin r \<Rightarrow> PyFloat (Fin r) | _ \<Rightarrow> PyNone)"
  by (simp add: uplift_relative_def np_float_or_none_def sanitize_float)
    (simp add: float_or_none_def)

lemma relative_null_cases:
  assumes "cm \<noteq> Fin 0" "(\<forall>c. cm \<noteq> Fin c) \<or> (\<forall>a. fsub tm cm \<noteq> Fin a)"
  shows "(case fmul (fdiv (fsub tm cm) cm) (Fin 100) of
            Fin r \<Rightarrow> PyFloat (Fin r) | _ \<Rightarrow> PyNone) = PyNone"
proof (cases cm)
  case (Fin c)
  then have c: "c \<noteq> 0" using assms(1) by simp
  from Fin assms(2) have "\<forall>a. fsub tm (Fin c) \<noteq> Fin a" by simp
  then show ?thesis using Fin c
    by (cases "fsub tm (Fin c)") (simp_all add: inf_of_sign_def)
next
  case PInf
  then show ?thesis by (cases tm) (simp_all add: fsub_def)
next
  case NInf
  then show ?thesis by (cases tm) (simp_all add: fsub_def)
next
  case NaN
  then show ?thesis by (cases tm) (simp_all add: fsub_def)
qed

text \<open>
  Claim C6, as amended. In a returned summary \<open>relative_uplift_pct\<close> is \<open>None\<close> when
  \<open>control_mean\<close> is \<open>None\<close> or zero, or \<open>absolute_uplift\<close> is \<open>None\<close>. When
  \<open>control_mean\<close> is a non-zero number and \<open>absolute_uplift\<close> is a number, it is
  \<open>(absolute_uplift / control_mean) * 100\<close> if that value is a finite double, and \<open>None\<close>
  if the quotient or the product leaves the range of a double.
\<close>

theorem relative_uplift_value:
  assumes "compute_uplift_summary df treatment outcome = Inr (Some s)"
  shows "(control_mean s = PyNone \<or> control_mean s = PyFloat (Fin 0)
          \<or> absolute_uplift s = PyNone \<longrightarrow> relative_uplift_pct s = PyNone)
       \<and> (\<forall>a c. absolute_uplift s = PyFloat (Fin a) \<and> control_mean s = PyFloat (Fin c)
                  \<and> c \<noteq> 0 \<longrightarrow>
            relative_uplift_pct s =
              (case fmul (fdiv (Fin a) (Fin c)) (Fin 100) of
                 Fin r \<Rightarrow> PyFloat (Fin r) | _ \<Rightarrow> PyNone))"
proof -
  define tm where "tm = series_mean (treated_outcomes df treatment outcome)"
  define cm where "cm = series_mean (control_outcomes df treatment outcome)"
  obtain se where
    "raw_se df treatment outcome = Inr se" and
    c: "control_mean s = safe_float (NpFloating cm)" and
    a: "absolute_uplift s = safe_float (NpFloating (fsub tm cm))" and
    r: "relative_uplift_pct s = safe_float (np_float_or_none (uplift_relative (fsub tm cm) cm))"
    using assms unfolding tm_def cm_def raw_uplift_def [symmetric] by (rule summary_fields)
  have null: "relative_uplift_pct s = PyNone"
    if "control_mean s = PyNone \<or> control_mean s = PyFloat (Fin 0) \<or> absolute_uplift s = PyNone"
  proof (cases "cm = Fin 0")
    case True
    then show ?thesis using r by (simp add: sanitize_relative)
  next
    case False
    have "(\<forall>c. cm \<noteq> Fin c) \<or> (\<forall>a. fsub tm cm \<noteq> Fin a)"
      using that False c a by (auto simp: sanitize_float split: pyfloat.splits)
    then show ?thesis using r False relative_null_cases [of cm tm]
      by (simp add: sanitize_relative)
  qed
  have val: "relative_uplift_pct s =
              (case fmul (fdiv (Fin x) (Fin z)) (Fin 100) of
                 Fin r \<Rightarrow> PyFloat (Fin r) | _ \<Rightarrow> PyNone)"
    if "absolute_uplift s = PyFloat (Fin x) \<and> control_mean s = PyFloat (Fin z) \<and> z \<noteq> 0"
    for x z
  proof -
    have "cm = Fin z"
      using that c by (auto simp: sanitize_float split: pyfloat.splits)
    moreover have "fsub tm cm = Fin x"
      using that a by (auto simp: sanitize_float split: pyfloat.splits)
    ultimately show ?thesis using r that by (simp add: sanitize_relative)
  qed
  show ?thesis using null val by blast
qed

lemma zero_control_present: "present_condition df_zero_control ''treatment'' ''outcome''"
  by (simp add: present_condition_def df_zero_control_def uplift_data_def numeric_column_def row2_def dropna_def
      isnan_def to_double_small treated_rows_def control_rows_def fge_def)

lemma zero_control_outcomes:
  "control_outcomes df_zero_control ''treatment'' ''outcome'' = [Fin 0]"
  by (simp add: control_outcomes_def coerced_data_def df_zero_control_def uplift_data_def numeric_column_def row2_def dropna_def
      isnan_def to_double_small control_rows_def fge_def)

theorem relative_uplift_value_witness:
  "(\<exists>s. compute_uplift_summary df_example ''treatment'' ''outcome'' = Inr (Some s)
     \<and> absolute_uplift s = PyFloat (Fin 9) \<and> control_mean s = PyFloat (Fin 6)
     \<and> relative_uplift_pct s = PyFloat (Fin 150))
   \<and> (\<exists>s. compute_uplift_summary df_zero_control ''treatment'' ''outcome'' = Inr (Some s)
     \<and> control_mean s = PyFloat (Fin 0) \<and> relative_uplift_pct s = PyNone)"
proof -
  obtain s where
    s: "compute_uplift_summary df_example ''treatment'' ''outcome'' = Inr (Some s)" and
    c: "control_mean s = PyFloat (Fin 6)" and a: "absolute_uplift s = PyFloat (Fin 9)"
    using example_means by blast
  have "absolute_uplift s = PyFloat (Fin 9) \<and> control_mean s = PyFloat (Fin 6)
        \<and> (6::real) \<noteq> 0 \<longrightarrow>
        relative_uplift_pct s = (case fmul (fdiv (Fin 9) (Fin 6)) (Fin 100) of
                 Fin r \<Rightarrow> PyFloat (Fin r) | _ \<Rightarrow> PyNone)"
    using relative_uplift_value [OF s] by blast
  then have first: "relative_uplift_pct s = PyFloat (Fin 150)"
    using a c by (simp add: to_double_small)
  obtain s' where
    s': "compute_uplift_summary df_zero_control ''treatment'' ''outcome'' = Inr (Some s')"
    using zero_control_present summary_returned by blast
  obtain se where
    "raw_se df_zero_control ''treatment'' ''outcome'' = Inr se" and
    "control_mean s' = safe_float (NpFloating (series_mean
        (control_outcomes df_zero_control ''treatment'' ''outcome'')))"
    using s' by (rule summary_fields)
  then have c': "control_mean s' = PyFloat (Fin 0)"
    by (simp add: zero_control_outcomes series_mean_def fsum_def to_double_small sanitize_float)
  have "control_mean s' = PyNone \<or> control_mean s' = PyFloat (Fin 0)
          \<or> absolute_uplift s' = PyNone \<longrightarrow> relative_uplift_pct s' = PyNone"
    using relative_uplift_value [OF s'] by blast
  then have second: "relative_uplift_pct s' = PyNone" using c' by simp
  show ?thesis using s a c first s' c' second by blast
qed

text \<open>
  The claim as stated fails on the dataset with one treated outcome \<open>1e307\<close> and one
  control outcome 1: \<open>control_mean\<close> is 1 and \<open>absolute_uplift\<close> is a number (the
  model keeps \<open>1e307 - 1\<close>, a double rounds it to \<open>1e307\<close>), but a hundred times
  their quotient is beyond the range of a double and \<open>relative_uplift_pct\<close> is
  \<open>None\<close>.
\<close>

theorem relative_uplift_overflow_counterexample:
  "summary_field control_mean
     (compute_uplift_summary df_large ''treatment'' ''outcome'') = Some (PyFloat (Fin 1))
   \<and> summary_field absolute_uplift
     (compute_uplift_summary df_large ''treatment'' ''outcome'')
     = Some (PyFloat (Fin (large - 1)))
   \<and> summary_field relative_uplift_pct
     (compute_uplift_summary df_large ''treatment'' ''outcome'') = Some PyNone"
proof -
  obtain s where
    s: "compute_uplift_summary df_large ''treatment'' ''outcome'' = Inr (Some s)"
    using summary_present [OF large_present] by metis
  obtain se where
    "raw_se df_large ''treatment'' ''outcome'' = Inr se" and
    c: "control_mean s = safe_float (NpFloating (series_mean
          (control_outcomes df_large ''treatment'' ''outcome'')))" and
    a: "absolute_uplift s = safe_float (NpFloating (raw_uplift df_large ''treatment'' ''outcome''))" and
    r: "relative_uplift_pct s = safe_float (np_float_or_none
          (uplift_relative (raw_uplift df_large ''treatment'' ''outcome'')
             (series_mean (control_outcomes df_large ''treatment'' ''outcome''))))"
    using s by (rule summary_fields)
  have "control_mean s = PyFloat (Fin 1)"
    using c by (simp add: large_control large_means sanitize_float)
  moreover have "absolute_uplift s = PyFloat (Fin (large - 1))"
    using a by (simp add: large_uplift sanitize_float)
  moreover have "relative_uplift_pct s = PyNone"
    using r large_bounds
    by (simp add: large_uplift large_control large_means sanitize_relative to_double_small
        to_double_big)
  ultimately show ?thesis using s by (simp add: summary_field_def)
qed

section \<open>The fallback of \<open>estimate_causal_effect\<close>\<close>

lemma sqrt_26_bounds: "0 < sqrt 26" "sqrt 26 \<le> 6"
proof -
  show "0 < sqrt 26" by simp
  have "sqrt 26 \<le> sqrt (6 ^ 2)" by (subst real_sqrt_le_iff) simp
  then show "sqrt 26 \<le> 6" by simp
qed

lemma interval_terms_small:
  fixes x p :: real
  assumes "0 < x" "x \<le> 6" "100 \<le> p"
  shows "\<bar>196 / 100 * x\<bar> \<le> p" "\<bar>9 - 196 / 100 * x\<bar> \<le> p" "\<bar>9 + 196 / 100 * x\<bar> \<le> p"
  using assms by (simp_all add: abs_le_iff)

lemma example_ci:
  "uplift_ci (Fin 9) (Some (Fin (sqrt 26)))
   = Some [Fin (9 - 196 / 100 * sqrt 26), Fin (9 + 196 / 100 * sqrt 26)]"
proof -
  have p: "(100::real) \<le> 2 ^ 1023" by simp
  have a: "\<bar>196 / 100 * sqrt 26\<bar> \<le> 2 ^ 1023"
    by (rule interval_terms_small(1) [OF sqrt_26_bounds p])
  have b: "\<bar>9 - 196 / 100 * sqrt 26\<bar> \<le> 2 ^ 1023"
    by (rule interval_terms_small(2) [OF sqrt_26_bounds p])
  have c: "\<bar>9 + 196 / 100 * sqrt 26\<bar> \<le> 2 ^ 1023"
    by (rule interval_terms_small(3) [OF sqrt_26_bounds p])
  have m: "fmul (Fin (196 / 100)) (Fin (sqrt 26)) = Fin (196 / 100 * sqrt 26)"
    using a by (simp add: to_double_small)
  show ?thesis
    using b c sqrt_26_bounds(1)
    by (simp add: uplift_ci_def fgt_def Let_def m fsub_def to_double_small
        del: real_sqrt_gt_0_iff)
qed

lemma example_interval:
  "summary_field approximate_confidence_interval
     (compute_uplift_summary df_example ''treatment'' ''outcome'')
   = Some (PyList [PyFloat (Fin (9 - 196 / 100 * sqrt 26)),
                   PyFloat (Fin (9 + 196 / 100 * sqrt 26))])"
proof -
  obtain s where
    s: "compute_uplift_summary df_example ''treatment'' ''outcome'' = Inr (Some s)"
    using example_returns by blast
  obtain se where
    se: "raw_se df_example ''treatment'' ''outcome'' = Inr se" and
    ci: "approximate_confidence_interval s =
         (case uplift_ci (raw_uplift df_example ''treatment'' ''outcome'') se of
            None \<Rightarrow> PyNone
          | Some ci \<Rightarrow> PyList (map (\<lambda>x. safe_float (NpFloating x)) ci))"
    using s by (rule summary_fields)
  have "se = Some (Fin (sqrt 26))" using se by (simp add: example_raw_se)
  then have "approximate_confidence_interval s
             = PyList [PyFloat (Fin (9 - 196 / 100 * sqrt 26)),
                       PyFloat (Fin (9 + 196 / 100 * sqrt 26))]"
    using ci by (simp add: example_uplift example_ci sanitize_float)
  then show ?thesis using s by (simp add: summary_field_def)
qed

text \<open>
  Claim C8. The claim requires the uplift summary's interval in place of a delegated
  interval that holds a \<open>None\<close> bound after sanitisation. When the library returns its
  interval as an array of shape \<open>(1, 2)\<close> with a NaN bound, the sanitised value is a
  list holding one list, the test of line 131 looks for \<open>None\<close> among the entries of the
  outer list only, and the interval with its \<open>None\<close> bound is returned although the
  uplift summary has an interval.
\<close>

theorem nested_interval_not_replaced:
  "result_conf_ints
     (estimate_causal_effect lib_nested_nan df_example ''treatment'' ''outcome'' [])
   = Some (PyList [PyList [PyNone, PyFloat (Fin 12)]])
   \<and> summary_field approximate_confidence_interval
       (compute_uplift_summary df_example ''treatment'' ''outcome'')
     = Some (PyList [PyFloat (Fin (9 - 196 / 100 * sqrt 26)),
                     PyFloat (Fin (9 + 196 / 100 * sqrt 26))])"
proof -
  obtain s where
    s: "compute_uplift_summary df_example ''treatment'' ''outcome'' = Inr (Some s)"
    using example_returns by blast
  have san: "sanitize_conf_ints (NdArray [NdArray [NpFloating NaN, NpFloating (Fin 12)]])
             = Inr (PyList [PyList [PyNone, PyFloat (Fin 12)]])"
    by (simp add: sanitize_conf_ints_def nd_size_def sanitize_float)
  have fb: "fallback_conf_ints (PyList [PyList [PyNone, PyFloat (Fin 12)]]) (Some s)
            = PyList [PyList [PyNone, PyFloat (Fin 12)]]"
    by (simp add: fallback_conf_ints_def)
  have "result_conf_ints
     (estimate_causal_effect lib_nested_nan df_example ''treatment'' ''outcome'' [])
     = Some (PyList [PyList [PyNone, PyFloat (Fin 12)]])"
    by (simp add: estimate_causal_effect_def s lib_nested_nan_def san fb result_conf_ints_def)
  then show ?thesis using example_interval by simp
qed

theorem nested_interval_not_replaced_witness:
  "result_conf_ints
     (estimate_causal_effect lib_nested_nan df_example ''treatment'' ''outcome'' [])
   \<noteq> summary_field approximate_confidence_interval
       (compute_uplift_summary df_example ''treatment'' ''outcome'')
   \<and> summary_field approximate_confidence_interval
       (compute_uplift_summary df_example ''treatment'' ''outcome'') \<noteq> Some PyNone"
  using nested_interval_not_replaced by simp

end
